theory Spec2Isabelle
  imports Complex_Main "HOL-Library.Multiset"
begin

section \<open>JavaScript values and coercions\<close>

text \<open>
  The JSON scalars that travel through telemetry metrics, the derived state of a device
  twin and the parameters of an alert rule.  Numbers are IEEE doubles in the program and
  reals here (the percentage of the dashboard apart, where the rounding of doubles is
  written out); timestamps are milliseconds since the epoch.
\<close>

datatype jsval = JNull | JNum real | JBool bool | JStr string

text \<open>\<open>undefined\<close> is \<open>None\<close>: a property that is absent from an object.\<close>

type_synonym jsobj = "string \<Rightarrow> jsval option"

text \<open>
  The entries of an object that the program iterates over (\<open>Object.entries\<close>), in their
  order; the keys of an object are distinct.  \<open>obj_get\<close> is property access.
\<close>

type_synonym jsentries = "(string \<times> jsval) list"

definition obj_get :: "jsentries \<Rightarrow> string \<Rightarrow> jsval option" where
  "obj_get entries k = map_of entries k"

text \<open>ToBoolean: \<open>undefined\<close>, \<open>null\<close>, \<open>0\<close>, \<open>false\<close> and the empty string are falsy.\<close>

fun truthy :: "jsval option \<Rightarrow> bool" where
  "truthy None = False"
| "truthy (Some JNull) = False"
| "truthy (Some (JNum x)) = (x \<noteq> 0)"
| "truthy (Some (JBool b)) = b"
| "truthy (Some (JStr s)) = (s \<noteq> [])"

text \<open>\<open>a || b\<close> and \<open>a ?? b\<close>.\<close>

definition js_or :: "jsval option \<Rightarrow> jsval option \<Rightarrow> jsval option" where
  "js_or a b = (if truthy a then a else b)"

fun js_nullish :: "jsval option \<Rightarrow> jsval option \<Rightarrow> jsval option" where
  "js_nullish None b = b"
| "js_nullish (Some JNull) b = b"
| "js_nullish a b = a"

text \<open>
  ToNumber.  The conversion of a string to a number is the language's StringToNumber; it
  is a parameter \<open>sn\<close> of every function that compares values (\<open>None\<close> is NaN).
\<close>

type_synonym str2num = "string \<Rightarrow> real option"

fun toNumber :: "str2num \<Rightarrow> jsval option \<Rightarrow> real option" where
  "toNumber sn None = None"
| "toNumber sn (Some JNull) = Some 0"
| "toNumber sn (Some (JNum x)) = Some x"
| "toNumber sn (Some (JBool b)) = Some (if b then 1 else 0)"
| "toNumber sn (Some (JStr s)) = sn s"

text \<open>Strings compare by code units, the shorter first when one is a prefix.\<close>

fun str_lt :: "string \<Rightarrow> string \<Rightarrow> bool" where
  "str_lt [] [] = False"
| "str_lt [] (y # ys) = True"
| "str_lt (x # xs) [] = False"
| "str_lt (x # xs) (y # ys) =
     (if (of_char x :: nat) < of_char y then True
      else if (of_char y :: nat) < of_char x then False
      else str_lt xs ys)"

text \<open>
  \<open>a < b\<close>: two strings compare as strings, anything else as numbers, and a comparison
  with NaN or \<open>undefined\<close> is false.  \<open>a > b\<close> is \<open>b < a\<close>.
\<close>

fun js_lt :: "str2num \<Rightarrow> jsval option \<Rightarrow> jsval option \<Rightarrow> bool" where
  "js_lt sn (Some (JStr s)) (Some (JStr t)) = str_lt s t"
| "js_lt sn a b =
     (case toNumber sn a of None \<Rightarrow> False
      | Some x \<Rightarrow> (case toNumber sn b of None \<Rightarrow> False | Some y \<Rightarrow> x < y))"

definition js_gt :: "str2num \<Rightarrow> jsval option \<Rightarrow> jsval option \<Rightarrow> bool" where
  "js_gt sn a b = js_lt sn b a"

text \<open>Truthiness of an optional string (\<open>string | undefined\<close>) and \<open>||\<close> on such values.\<close>

fun truthy_str :: "string option \<Rightarrow> bool" where
  "truthy_str None = False"
| "truthy_str (Some s) = (s \<noteq> [])"

definition str_or :: "string option \<Rightarrow> string option \<Rightarrow> string option" where
  "str_or a b = (if truthy_str a then a else b)"

section \<open>Errors (common/errors.ts)\<close>

datatype app_error = AppError (statusCode: nat) (code: string) (message: string)

definition NotFoundError :: "string \<Rightarrow> string option \<Rightarrow> app_error" where
  "NotFoundError entity ident =
     AppError 404 ''NOT_FOUND''
       (case ident of
          Some i \<Rightarrow> if i \<noteq> [] then entity @ '' with id '' @ [CHR 0x27] @ i @ [CHR 0x27] @ '' not found''
                    else entity @ '' not found''
        | None \<Rightarrow> entity @ '' not found'')"

definition ForbiddenError :: "string \<Rightarrow> app_error" where
  "ForbiddenError msg = AppError 403 ''FORBIDDEN'' msg"

definition UnauthorizedError :: "string \<Rightarrow> app_error" where
  "UnauthorizedError msg = AppError 401 ''UNAUTHORIZED'' msg"

definition ValidationError :: "string \<Rightarrow> app_error" where
  "ValidationError msg = AppError 400 ''VALIDATION_ERROR'' msg"

definition ConflictError :: "string \<Rightarrow> app_error" where
  "ConflictError msg = AppError 409 ''CONFLICT'' msg"

definition EntitlementError :: "string \<Rightarrow> app_error" where
  "EntitlementError feature =
     AppError 403 ''FEATURE_DISABLED''
       (''Feature '' @ [CHR 0x27] @ feature @ [CHR 0x27]
          @ '' is not enabled for this tenant/device. Contact your administrator.'')"

text \<open>
  What the error boundary answers for an error that is not an \<open>AppError\<close>: a schema
  violation raised by \<open>validate\<close>, and anything else (a store exception).
\<close>

definition ZodError :: app_error where
  "ZodError = AppError 400 ''VALIDATION_ERROR'' ''Request validation failed''"

definition InternalError :: app_error where
  "InternalError = AppError 500 ''INTERNAL_ERROR'' ''An unexpected error occurred''"

text \<open>The code and HTTP status of a failed result.\<close>

fun error_code :: "app_error + 'a \<Rightarrow> string option" where
  "error_code (Inl e) = Some (code e)"
| "error_code (Inr v) = None"

fun error_status :: "app_error + 'a \<Rightarrow> nat option" where
  "error_status (Inl e) = Some (statusCode e)"
| "error_status (Inr v) = None"

section \<open>Requests and the identity and tenancy guard (common/middleware)\<close>

datatype role = PLATFORM_ADMIN | TENANT_ADMIN | INSTALLER | SUPPORT_AGENT | END_USER

record jwt_payload =
  userId :: string
  email :: string

record membership =
  m_userId :: string
  m_tenantId :: string
  m_role :: role

text \<open>The memberships of a user context are the selected pairs (tenantId, role).\<close>

record user_ctx =
  u_userId :: string
  u_email :: string
  memberships :: "(string \<times> role) list"

text \<open>A query value is a string or a list of strings.\<close>

datatype qval = QStr string | QArr "string list"

text \<open>
  What the cryptographic check of the Authorization header finds, read as a user token
  and read as a device MAC token \<open>deviceId:hmac\<close>.
\<close>

datatype bearer_outcome = NoBearerHeader | BadUserToken | VerifiedUser jwt_payload

datatype device_outcome =
  NoDeviceHeader | BadDeviceTokenFormat | BadDeviceMac | VerifiedDevice string

text \<open>
  A request: the two outcomes above, the inputs the tenancy guard reads, and the fields
  of \<open>AuthenticatedRequest\<close> that the middleware sets.
\<close>

record request =
  bearer :: bearer_outcome
  device_token :: device_outcome
  params_tenantId :: "string option"
  params_id :: "string option"
  params_deviceId :: "string option"
  header_x_tenant_id :: "string option"
  query_tenantId :: "qval option"
  jwtPayload :: "jwt_payload option"
  user :: "user_ctx option"
  tenantId :: "string option"
  deviceId :: "string option"
  isDeviceAuth :: bool

definition authenticateUser :: "request \<Rightarrow> app_error + request" where
  "authenticateUser req =
     (case bearer req of
        NoBearerHeader \<Rightarrow> Inl (UnauthorizedError ''Missing or invalid Authorization header'')
      | BadUserToken \<Rightarrow> Inl (UnauthorizedError ''Invalid or expired token'')
      | VerifiedUser decoded \<Rightarrow> Inr (req\<lparr>jwtPayload := Some decoded\<rparr>))"

definition loadUserContext :: "membership list \<Rightarrow> request \<Rightarrow> app_error + request" where
  "loadUserContext membershipTable req =
     (case jwtPayload req of
        None \<Rightarrow> Inl (UnauthorizedError ''Authentication required'')
      | Some payload \<Rightarrow>
          Inr (req\<lparr>user := Some \<lparr>u_userId = userId payload, u_email = email payload,
                 memberships = map (\<lambda>m. (m_tenantId m, m_role m))
                   (filter (\<lambda>m. m_userId m = userId payload) membershipTable)\<rparr>\<rparr>))"

definition authenticateDevice :: "request \<Rightarrow> app_error + request" where
  "authenticateDevice req =
     (case device_token req of
        NoDeviceHeader \<Rightarrow> Inl (UnauthorizedError ''Missing device authorization'')
      | BadDeviceTokenFormat \<Rightarrow> Inl (UnauthorizedError ''Invalid device token format'')
      | BadDeviceMac \<Rightarrow> Inl (UnauthorizedError ''Invalid device credentials'')
      | VerifiedDevice d \<Rightarrow> Inr (req\<lparr>deviceId := Some d, isDeviceAuth := True\<rparr>))"

definition isPlatformAdmin :: "user_ctx \<Rightarrow> bool" where
  "isPlatformAdmin u = list_ex (\<lambda>m. snd m = PLATFORM_ADMIN) (memberships u)"

text \<open>
  The tenant id a request names: the path parameter, else the \<open>x-tenant-id\<close> header, else
  the \<open>tenantId\<close> query value when it is a string.
\<close>

definition requestedTenantId :: "request \<Rightarrow> string option" where
  "requestedTenantId req =
     str_or (str_or (params_tenantId req) (header_x_tenant_id req))
       (case query_tenantId req of Some (QStr s) \<Rightarrow> Some s | Some (QArr a) \<Rightarrow> None | None \<Rightarrow> None)"

definition enforceTenancy :: "request \<Rightarrow> app_error + request" where
  "enforceTenancy req =
     (if isDeviceAuth req then Inr req
      else case user req of
        None \<Rightarrow> Inl (ForbiddenError ''User context required'')
      | Some u \<Rightarrow>
          (let tid = requestedTenantId req in
           if \<not> truthy_str tid \<and> \<not> isPlatformAdmin u then
             Inl (ValidationError ''x-tenant-id header or tenantId parameter is required'')
           else if truthy_str tid then
             (if \<not> isPlatformAdmin u \<and> find (\<lambda>m. Some (fst m) = tid) (memberships u) = None then
                Inl (ForbiddenError ''Access denied: not a member of this tenant'')
              else Inr (req\<lparr>tenantId := tid\<rparr>))
           else Inr req))"

fun role_name :: "role \<Rightarrow> string" where
  "role_name PLATFORM_ADMIN = ''PLATFORM_ADMIN''"
| "role_name TENANT_ADMIN = ''TENANT_ADMIN''"
| "role_name INSTALLER = ''INSTALLER''"
| "role_name SUPPORT_AGENT = ''SUPPORT_AGENT''"
| "role_name END_USER = ''END_USER''"

text \<open>\<open>parts.join(sep)\<close>.\<close>

fun join :: "string \<Rightarrow> string list \<Rightarrow> string" where
  "join sep [] = []"
| "join sep [x] = x"
| "join sep (x # y # ys) = x @ sep @ join sep (y # ys)"

definition requireRoles :: "role list \<Rightarrow> request \<Rightarrow> app_error + request" where
  "requireRoles roles req =
     (case user req of
        None \<Rightarrow> Inl (UnauthorizedError ''Authentication required'')
      | Some u \<Rightarrow>
          (let tid = str_or (str_or (tenantId req) (params_tenantId req)) (header_x_tenant_id req) in
           if isPlatformAdmin u then Inr req
           else if \<not> truthy_str tid then Inl (ForbiddenError ''Tenant context required'')
           else case find (\<lambda>m. Some (fst m) = tid) (memberships u) of
             None \<Rightarrow> Inl (ForbiddenError ''Not a member of this tenant'')
           | Some m \<Rightarrow>
               if snd m \<in> set roles then Inr req
               else Inl (ForbiddenError (''Requires one of: '' @ join '', '' (map role_name roles)))))"

text \<open>A middleware chain stops at the first error.\<close>

definition andThen :: "app_error + 'a \<Rightarrow> ('a \<Rightarrow> app_error + 'b) \<Rightarrow> app_error + 'b" where
  "andThen r f = (case r of Inl e \<Rightarrow> Inl e | Inr v \<Rightarrow> f v)"

text \<open>A request on which no middleware has run yet.\<close>

definition blank_request :: request where
  "blank_request =
     \<lparr>bearer = NoBearerHeader, device_token = NoDeviceHeader, params_tenantId = None, params_id = None,
      params_deviceId = None, header_x_tenant_id = None, query_tenantId = None,
      jwtPayload = None, user = None, tenantId = None, deviceId = None,
      isDeviceAuth = False\<rparr>"

section \<open>Entitlement gate (modules/entitlements/router.ts)\<close>

datatype entitlement_scope = TENANT | DEVICE

text \<open>
  An Entitlement row.  The key column is an enumeration of BASIC_REMOTE_BOOST and
  SMART_HOME_INTEGRATION; \<open>checkEntitlement\<close> takes the key as a string.
\<close>

record entitlement =
  e_id :: string
  e_tenantId :: string
  e_scope :: entitlement_scope
  e_deviceId :: "string option"
  e_key :: string
  e_enabled :: bool

definition checkEntitlement ::
  "entitlement list \<Rightarrow> string \<Rightarrow> string \<Rightarrow> string option \<Rightarrow> bool" where
  "checkEntitlement rows tid key dev =
     (let deviceEntitlement =
        (if truthy_str dev then
           find (\<lambda>e. e_tenantId e = tid \<and> e_key e = key \<and> e_deviceId e = dev \<and> e_scope e = DEVICE) rows
         else None)
      in case deviceEntitlement of
        Some de \<Rightarrow> e_enabled de
      | None \<Rightarrow>
          (let tenantEntitlement =
             find (\<lambda>e. e_tenantId e = tid \<and> e_key e = key \<and> e_scope e = TENANT \<and> e_deviceId e = None) rows
           in if tenantEntitlement = None \<and> key = ''BASIC_REMOTE_BOOST'' then True
              else case tenantEntitlement of Some te \<Rightarrow> e_enabled te | None \<Rightarrow> False))"

definition requireEntitlement ::
  "entitlement list \<Rightarrow> string \<Rightarrow> request \<Rightarrow> app_error + request" where
  "requireEntitlement rows key req =
     (case tenantId req of
        None \<Rightarrow> Inr req
      | Some tid \<Rightarrow>
          if tid = [] then Inr req
          else
            (let dev = str_or (params_id req) (params_deviceId req);
                 enabled = checkEntitlement rows tid key dev
             in if \<not> enabled then Inl (EntitlementError key) else Inr req))"

text \<open>
  The resolution rule in the words of the specification, over the enabled flags of the
  scope-DEVICE rows for the device and of the scope-TENANT rows, each in store order:
  a device row wins, else a tenant row wins, else the default table.  \<open>tenantRows\<close> are
  the scope-TENANT rows of the tenant and key; \<open>unboundTenantRows\<close> are those among them
  that carry no device id.
\<close>

definition defaultEntitlement :: "string \<Rightarrow> bool" where
  "defaultEntitlement key = (key = ''BASIC_REMOTE_BOOST'')"

fun entitlementRule :: "bool list \<Rightarrow> bool list \<Rightarrow> string \<Rightarrow> bool" where
  "entitlementRule (d # ds) ts key = d"
| "entitlementRule [] (t # ts) key = t"
| "entitlementRule [] [] key = defaultEntitlement key"

definition deviceRows :: "entitlement list \<Rightarrow> string \<Rightarrow> string \<Rightarrow> string option \<Rightarrow> entitlement list" where
  "deviceRows rows tid key dev =
     (case dev of
        None \<Rightarrow> []
      | Some d \<Rightarrow>
          filter (\<lambda>e. e_scope e = DEVICE \<and> e_deviceId e = Some d \<and> e_tenantId e = tid \<and> e_key e = key) rows)"

definition tenantRows :: "entitlement list \<Rightarrow> string \<Rightarrow> string \<Rightarrow> entitlement list" where
  "tenantRows rows tid key =
     filter (\<lambda>e. e_scope e = TENANT \<and> e_tenantId e = tid \<and> e_key e = key) rows"

definition unboundTenantRows :: "entitlement list \<Rightarrow> string \<Rightarrow> string \<Rightarrow> entitlement list" where
  "unboundTenantRows rows tid key =
     filter (\<lambda>e. e_scope e = TENANT \<and> e_deviceId e = None \<and> e_tenantId e = tid \<and> e_key e = key) rows"

section \<open>The store (prisma migration 20260210_init)\<close>

text \<open>
  Each table is the list of its rows, in the order in which a query without an
  \<open>orderBy\<close> returns them.  Rows carry the columns that the modelled operations depend
  on; free-form JSON columns that no operation reads back (payloads, audit metadata) are
  kept as text or left out.  Identifiers are opaque strings generated outside the
  operations; a \<open>create\<close> whose primary key is already present is rejected by the store.
\<close>

datatype device_status = PROVISIONED | INSTALLED | ACTIVE | SUSPENDED | RETIRED

datatype location_source = MOBILE_GPS | EDGE_GNSS | EDGE_CELL | MANUAL

record device =
  d_id :: string
  d_tenantId :: string
  d_siteId :: "string option"
  d_status :: device_status
  d_lastSeenAt :: "int option"
  d_firmwareVersion :: "string option"
  d_deviceLat :: "real option"
  d_deviceLon :: "real option"
  d_deviceLocationTs :: "int option"
  d_deviceLocationSource :: "location_source option"
  d_deviceLocationAccuracyM :: "real option"

record site =
  s_id :: string
  s_tenantId :: string
  s_lat :: "real option"
  s_lon :: "real option"
  s_locationSource :: "location_source option"
  s_locationAccuracyM :: "real option"
  s_locationUpdatedAt :: "int option"
  s_locationLock :: bool

record geo =
  g_lat :: real
  g_lon :: real
  g_accuracyM :: "real option"
  g_source :: location_source

record telemetry =
  t_id :: string
  t_deviceId :: string
  t_ts :: int
  t_metrics :: jsentries
  t_geo :: "geo option"

record device_twin =
  tw_deviceId :: string
  tw_lastTs :: "int option"
  tw_derivedState :: jsobj

datatype command_status = QUEUED | DELIVERED | ACKED | FAILED | EXPIRED

datatype command_type = REMOTE_BOOST_SET | SET_SCHEDULE | SET_CONFIG

text \<open>A command payload is free-form JSON that no operation inspects: its text.\<close>

record command =
  c_id :: string
  c_deviceId :: string
  c_type :: command_type
  c_payload :: string
  c_status :: command_status
  c_requestedByUserId :: "string option"
  c_requestedAt :: int
  c_deliveredAt :: "int option"
  c_ackAt :: "int option"
  c_errorMsg :: "string option"

record firmware_package =
  f_id :: string
  f_version :: string

datatype ota_target_type = TARGET_DEVICE | TARGET_GROUP

datatype ota_job_status = SCHEDULED | IN_PROGRESS | SUCCESS | OTA_FAILED | CANCELED

record ota_job =
  j_id :: string
  j_tenantId :: string
  j_targetType :: ota_target_type
  j_deviceId :: "string option"
  j_firmwarePackageId :: string
  j_status :: ota_job_status
  j_scheduledAt :: int
  j_startedAt :: "int option"
  j_finishedAt :: "int option"
  j_progress :: "string option"

datatype alert_rule_type = NO_TELEMETRY | OVER_TEMP | POSSIBLE_LEAK | SENSOR_OUT_OF_RANGE

datatype alert_severity = INFO | WARNING | CRITICAL

datatype alert_event_status = OPEN | ACKNOWLEDGED | CLOSED

record alert_rule =
  r_id :: string
  r_tenantId :: string
  r_enabled :: bool
  r_type :: alert_rule_type
  r_params :: jsobj
  r_severity :: alert_severity

record alert_event =
  ae_id :: string
  ae_tenantId :: string
  ae_deviceId :: string
  ae_ruleId :: string
  ae_severity :: alert_severity
  ae_status :: alert_event_status
  ae_openedAt :: int
  ae_details :: "(string \<times> jsval option) list"
  ae_dedupeKey :: "string option"

datatype channel_type = EMAIL | SMS | WEBHOOK

record notification_channel =
  ch_id :: string
  ch_tenantId :: string
  ch_type :: channel_type
  ch_config :: jsobj
  ch_enabled :: bool

datatype notification_status = N_QUEUED | N_SENT | N_FAILED

record notification_event =
  n_id :: string
  n_tenantId :: string
  n_channelId :: string
  n_alertEventId :: "string option"
  n_status :: notification_status
  n_sentAt :: "int option"
  n_errorMsg :: "string option"
  n_createdAt :: int

record daily_rollup =
  ro_tenantId :: string
  ro_deviceId :: string
  ro_dayDate :: int
  ro_energyKwhDay :: "real option"

datatype actor_type = ACTOR_USER | ACTOR_DEVICE | ACTOR_SYSTEM

record audit_log =
  a_tenantId :: "string option"
  a_actorUserId :: "string option"
  a_actorType :: actor_type
  a_action :: string
  a_entityType :: string
  a_entityId :: string

record db =
  membershipTable :: "membership list"
  devices :: "device list"
  sites :: "site list"
  telemetryTable :: "telemetry list"
  twins :: "device_twin list"
  commands :: "command list"
  firmwarePackages :: "firmware_package list"
  otaJobs :: "ota_job list"
  alertRules :: "alert_rule list"
  alertEvents :: "alert_event list"
  notificationChannels :: "notification_channel list"
  notificationEvents :: "notification_event list"
  entitlements :: "entitlement list"
  dailyRollups :: "daily_rollup list"
  auditLogs :: "audit_log list"

definition empty_db :: db where
  "empty_db =
     \<lparr>membershipTable = [], devices = [], sites = [], telemetryTable = [], twins = [],
      commands = [], firmwarePackages = [], otaJobs = [], alertRules = [], alertEvents = [],
      notificationChannels = [], notificationEvents = [], entitlements = [],
      dailyRollups = [], auditLogs = []\<rparr>"

text \<open>
  \<open>writeAuditLog\<close> appends one row; \<open>tenantId || null\<close> and \<open>actorUserId || null\<close> turn an
  empty string into null.  A failure of the write is swallowed by the function and
  changes nothing else, so the append is modelled as succeeding.
\<close>

definition nonEmpty :: "string option \<Rightarrow> string option" where
  "nonEmpty a = (if truthy_str a then a else None)"

definition writeAuditLog ::
  "string option \<Rightarrow> string option \<Rightarrow> actor_type \<Rightarrow> string \<Rightarrow> string \<Rightarrow> string \<Rightarrow> db \<Rightarrow> db" where
  "writeAuditLog tid actor atype action etype eid s =
     s\<lparr>auditLogs := auditLogs s @
        [\<lparr>a_tenantId = nonEmpty tid, a_actorUserId = nonEmpty actor, a_actorType = atype,
          a_action = action, a_entityType = etype, a_entityId = eid\<rparr>]\<rparr>"

section \<open>Command queue (modules/commands/router.ts)\<close>

text \<open>\<open>updateMany\<close> and \<open>update\<close>: every row that matches is rewritten in place.\<close>

definition updateWhere :: "('a \<Rightarrow> bool) \<Rightarrow> ('a \<Rightarrow> 'a) \<Rightarrow> 'a list \<Rightarrow> 'a list" where
  "updateWhere P f xs = map (\<lambda>x. if P x then f x else x) xs"

text \<open>
  A filter on \<open>tenantId: req.tenantId\<close>: the store ignores a filter whose value is
  \<open>undefined\<close>.
\<close>

fun tenantFilter :: "string option \<Rightarrow> string \<Rightarrow> bool" where
  "tenantFilter None t = True"
| "tenantFilter (Some tid) t = (t = tid)"

text \<open>
  POST /:id/commands.  \<open>newId\<close> is the identifier generated for the row and \<open>now\<close> the
  clock; the body has passed \<open>createCommandSchema\<close>, which its type expresses.
\<close>

definition createCommandHandler ::
  "request \<Rightarrow> command_type \<Rightarrow> string \<Rightarrow> string \<Rightarrow> int \<Rightarrow> db \<Rightarrow> (app_error + command) \<times> db" where
  "createCommandHandler req ty payload newId now s =
     (case find (\<lambda>d. Some (d_id d) = params_id req \<and> tenantFilter (tenantId req) (d_tenantId d))
             (devices s) of
        None \<Rightarrow> (Inl (NotFoundError ''Device'' (params_id req)), s)
      | Some device \<Rightarrow>
          (case user req of
             None \<Rightarrow> (Inl InternalError, s)
           | Some u \<Rightarrow>
               if list_ex (\<lambda>c. c_id c = newId) (commands s) then (Inl InternalError, s)
               else
                 (let command =
                        \<lparr>c_id = newId, c_deviceId = d_id device, c_type = ty, c_payload = payload,
                         c_status = QUEUED, c_requestedByUserId = Some (u_userId u),
                         c_requestedAt = now, c_deliveredAt = None, c_ackAt = None,
                         c_errorMsg = None\<rparr>;
                      s1 = s\<lparr>commands := commands s @ [command]\<rparr>;
                      s2 = writeAuditLog (tenantId req) (Some (u_userId u)) ACTOR_USER
                             ''COMMAND_CREATED'' ''Command'' (c_id command) s1
                  in (Inr command, s2))))"

definition createCommand ::
  "request \<Rightarrow> command_type \<Rightarrow> string \<Rightarrow> string \<Rightarrow> int \<Rightarrow> db \<Rightarrow> (app_error + command) \<times> db" where
  "createCommand req ty payload newId now s =
     (case andThen (andThen (andThen (andThen (authenticateUser req)
               (loadUserContext (membershipTable s)))
               enforceTenancy)
               (requireRoles [PLATFORM_ADMIN, TENANT_ADMIN, INSTALLER, SUPPORT_AGENT, END_USER]))
               (requireEntitlement (entitlements s) ''BASIC_REMOTE_BOOST'') of
        Inl e \<Rightarrow> (Inl e, s)
      | Inr req' \<Rightarrow> createCommandHandler req' ty payload newId now s)"

text \<open>
  GET /:id/commands/pending.  The rows are read in ascending \<open>requestedAt\<close> order (rows
  with equal keys in store order), then every row whose id was read is rewritten, and
  the rows as read are the response.
\<close>

definition pendingCommands :: "request \<Rightarrow> int \<Rightarrow> db \<Rightarrow> (app_error + command list) \<times> db" where
  "pendingCommands req now s =
     (case authenticateDevice req of
        Inl e \<Rightarrow> (Inl e, s)
      | Inr r \<Rightarrow>
          if deviceId r \<noteq> params_id r then (Inl (ForbiddenError ''Device ID mismatch''), s)
          else
            (let cmds = sort_key c_requestedAt
                   (filter (\<lambda>c. Some (c_deviceId c) = params_id r \<and> c_status c = QUEUED) (commands s));
                 s1 = (if length cmds > 0 then
                         s\<lparr>commands := updateWhere (\<lambda>c. c_id c \<in> set (map c_id cmds))
                              (\<lambda>c. c\<lparr>c_status := DELIVERED, c_deliveredAt := Some now\<rparr>)
                              (commands s)\<rparr>
                       else s)
             in (Inr cmds, s1)))"

text \<open>POST /:id/commands/:commandId/ack, with \<open>ackCommandSchema\<close>.\<close>

record ack_body =
  b_status :: command_status
  b_errorMsg :: "string option"

definition ackCommandSchema :: "ack_body \<Rightarrow> bool" where
  "ackCommandSchema body = (b_status body = ACKED \<or> b_status body = FAILED)"

fun command_status_name :: "command_status \<Rightarrow> string" where
  "command_status_name QUEUED = ''QUEUED''"
| "command_status_name DELIVERED = ''DELIVERED''"
| "command_status_name ACKED = ''ACKED''"
| "command_status_name FAILED = ''FAILED''"
| "command_status_name EXPIRED = ''EXPIRED''"

definition ackCommand ::
  "request \<Rightarrow> string \<Rightarrow> ack_body \<Rightarrow> int \<Rightarrow> db \<Rightarrow> (app_error + command) \<times> db" where
  "ackCommand req commandId body now s =
     (case authenticateDevice req of
        Inl e \<Rightarrow> (Inl e, s)
      | Inr r \<Rightarrow>
          if \<not> ackCommandSchema body then (Inl ZodError, s)
          else if deviceId r \<noteq> params_id r then (Inl (ForbiddenError ''Device ID mismatch''), s)
          else
            (case find (\<lambda>c. c_id c = commandId \<and> Some (c_deviceId c) = params_id r) (commands s) of
               None \<Rightarrow> (Inl (NotFoundError ''Command'' (Some commandId)), s)
             | Some command \<Rightarrow>
                 (let upd = (\<lambda>c. c\<lparr>c_status := b_status body, c_ackAt := Some now,
                                     c_errorMsg := nonEmpty (b_errorMsg body)\<rparr>);
                      s1 = s\<lparr>commands := updateWhere (\<lambda>c. c_id c = c_id command) upd (commands s)\<rparr>;
                      updated = upd command;
                      device = find (\<lambda>d. Some (d_id d) = params_id r) (devices s1);
                      s2 = writeAuditLog (map_option d_tenantId device) None ACTOR_DEVICE
                             (''COMMAND_'' @ command_status_name (b_status body)) ''Command''
                             (c_id command) s1
                  in (Inr updated, s2))))"

text \<open>
  The operations of the service that write Command rows are these three; every other
  operation leaves the Command table as it is.  \<open>command_steps s s'\<close>: the store \<open>s'\<close> is
  reached from \<open>s\<close> by any sequence of operations.
\<close>

inductive command_steps :: "db \<Rightarrow> db \<Rightarrow> bool" where
  steps_refl: "command_steps s s"
| steps_create: "command_steps s s1 \<Longrightarrow> command_steps s (snd (createCommand req ty payload newId now s1))"
| steps_pending: "command_steps s s1 \<Longrightarrow> command_steps s (snd (pendingCommands req now s1))"
| steps_ack: "command_steps s s1 \<Longrightarrow> command_steps s (snd (ackCommand req commandId body now s1))"
| steps_other: "command_steps s s1 \<Longrightarrow> commands s2 = commands s1 \<Longrightarrow> command_steps s s2"

section \<open>OTA coordinator, device report (modules/ota/router.ts)\<close>

text \<open>
  The body of POST /devices/:id/ota/report is not validated.  \<open>jobId\<close> and \<open>status\<close> are
  whatever JSON scalar the device sent (or absent); \<open>progress\<close>, when present, is the
  text of a JSON value.
\<close>

record ota_report_body =
  rb_jobId :: "string option"
  rb_status :: "jsval option"
  rb_progress :: "string option"

definition otaReport ::
  "request \<Rightarrow> ota_report_body \<Rightarrow> int \<Rightarrow> db \<Rightarrow> (app_error + ota_job) \<times> db" where
  "otaReport req body now s =
     (case authenticateDevice req of
        Inl e \<Rightarrow> (Inl e, s)
      | Inr r \<Rightarrow>
          if deviceId r \<noteq> params_id r then (Inl (ForbiddenError ''Device ID mismatch''), s)
          else
            (case rb_jobId body of
               None \<Rightarrow> (Inl InternalError, s)
             | Some jobId \<Rightarrow>
                 (case find (\<lambda>j. j_id j = jobId) (otaJobs s) of
                    None \<Rightarrow> (Inl (NotFoundError ''OtaJob'' (Some jobId)), s)
                  | Some job \<Rightarrow>
                      (let status = rb_status body;
                           u1 = (\<lambda>j. case rb_progress body of None \<Rightarrow> j
                                       | Some p \<Rightarrow> j\<lparr>j_progress := Some p\<rparr>);
                           u2 = (\<lambda>j. if status = Some (JStr ''SUCCESS'')
                                        then j\<lparr>j_status := SUCCESS, j_finishedAt := Some now\<rparr>
                                      else if status = Some (JStr ''FAILED'')
                                        then j\<lparr>j_status := OTA_FAILED, j_finishedAt := Some now\<rparr>
                                      else j);
                           u3 = (\<lambda>j. if status = Some (JStr ''IN_PROGRESS'') \<and> j_status job = SCHEDULED
                                        then j\<lparr>j_status := IN_PROGRESS, j_startedAt := Some now\<rparr>
                                      else j);
                           upd = (\<lambda>j. u3 (u2 (u1 j)));
                           s1 = s\<lparr>otaJobs := updateWhere (\<lambda>j. j_id j = jobId) upd (otaJobs s)\<rparr>;
                           updated = upd job
                       in if status = Some (JStr ''SUCCESS'') then
                            (case find (\<lambda>f. f_id f = j_firmwarePackageId job) (firmwarePackages s1) of
                               None \<Rightarrow> (Inr updated, s1)
                             | Some firmware \<Rightarrow>
                                 if list_ex (\<lambda>d. Some (d_id d) = params_id r) (devices s1) then
                                   (Inr updated,
                                    s1\<lparr>devices := updateWhere (\<lambda>d. Some (d_id d) = params_id r)
                                         (\<lambda>d. d\<lparr>d_firmwareVersion := Some (f_version firmware)\<rparr>)
                                         (devices s1)\<rparr>)
                                 else (Inl InternalError, s1))
                          else (Inr updated, s1)))))"

section \<open>Telemetry ingestor (modules/telemetry/router.ts)\<close>

text \<open>The plausibility table.\<close>

fun METRIC_RANGES :: "string \<Rightarrow> (real \<times> real) option" where
  "METRIC_RANGES k =
     (if k = ''tankTempC'' then Some (-10, 120)
      else if k = ''ambientTempC'' then Some (-50, 70)
      else if k = ''humidityPct'' then Some (0, 100)
      else if k = ''lux'' then Some (0, 200000)
      else if k = ''flowLpm'' then Some (0, 50)
      else if k = ''powerW'' then Some (0, 10000)
      else if k = ''batteryPct'' then Some (0, 100)
      else if k = ''rssiDbm'' then Some (-130, 0)
      else None)"

text \<open>
  A warning \<open>key=value out of plausible range [min, max]\<close>, kept as its four parts.
\<close>

type_synonym warning = "string \<times> real \<times> real \<times> real"

fun validateMetricRanges :: "jsentries \<Rightarrow> warning list" where
  "validateMetricRanges [] = []"
| "validateMetricRanges ((k, JNum x) # rest) =
     (case METRIC_RANGES k of
        Some (lo, hi) \<Rightarrow>
          if x < lo \<or> x > hi then (k, x, lo, hi) # validateMetricRanges rest
          else validateMetricRanges rest
      | None \<Rightarrow> validateMetricRanges rest)"
| "validateMetricRanges ((k, v) # rest) = validateMetricRanges rest"

fun location_source_name :: "location_source \<Rightarrow> string" where
  "location_source_name MOBILE_GPS = ''MOBILE_GPS''"
| "location_source_name EDGE_GNSS = ''EDGE_GNSS''"
| "location_source_name EDGE_CELL = ''EDGE_CELL''"
| "location_source_name MANUAL = ''MANUAL''"

text \<open>
  \<open>computeDerivedState\<close>.  The loop over the entries of \<open>metrics\<close> writes the property
  \<open>last_<key>\<close>; assigning \<open>undefined\<close> leaves a property absent in the stored JSON.
\<close>

definition lastKey :: "string \<Rightarrow> string" where
  "lastKey k = ''last_'' @ k"

fun mirrorMetrics :: "jsentries \<Rightarrow> jsobj \<Rightarrow> jsobj" where
  "mirrorMetrics [] state = state"
| "mirrorMetrics ((k, v) # rest) state = mirrorMetrics rest (state(lastKey k \<mapsto> v))"

text \<open>\<open>state.field = metrics.metric ?? state.field\<close>.\<close>

definition assignLast :: "string \<Rightarrow> string \<Rightarrow> jsentries \<Rightarrow> jsobj \<Rightarrow> jsobj" where
  "assignLast field metric metrics state =
     state(field := js_nullish (obj_get metrics metric) (state field))"

definition healthScore :: "str2num \<Rightarrow> jsentries \<Rightarrow> real" where
  "healthScore sn metrics =
     (let health0 = (100 :: real);
          health1 = (if obj_get metrics ''rssiDbm'' \<noteq> None
                        \<and> js_lt sn (obj_get metrics ''rssiDbm'') (Some (JNum (- 100)))
                     then health0 - 20 else health0);
          health2 = (if obj_get metrics ''batteryPct'' \<noteq> None
                        \<and> js_lt sn (obj_get metrics ''batteryPct'') (Some (JNum 20))
                     then health1 - 30 else health1);
          health3 = (if obj_get metrics ''tankTempC'' \<noteq> None
                        \<and> js_gt sn (obj_get metrics ''tankTempC'') (Some (JNum 85))
                     then health2 - 20 else health2)
      in max 0 health3)"

definition computeDerivedState :: "str2num \<Rightarrow> jsentries \<Rightarrow> geo option \<Rightarrow> jsobj \<Rightarrow> jsobj" where
  "computeDerivedState sn metrics g existingState =
     (let state1 = mirrorMetrics metrics existingState;
          state2 = state1(''isOnline'' \<mapsto> JBool True);
          state3 = assignLast ''lastRssi'' ''rssiDbm'' metrics state2;
          state4 = assignLast ''lastTankTempC'' ''tankTempC'' metrics state3;
          state5 = assignLast ''lastAmbientTempC'' ''ambientTempC'' metrics state4;
          state6 = assignLast ''heaterOn'' ''heaterOn'' metrics state5;
          state7 = assignLast ''lastPowerW'' ''powerW'' metrics state6;
          state8 = state7(''healthScore'' \<mapsto> JNum (healthScore sn metrics))
      in case g of
           None \<Rightarrow> state8
         | Some gg \<Rightarrow>
             state8(''lastGeoLat'' \<mapsto> JNum (g_lat gg), ''lastGeoLon'' \<mapsto> JNum (g_lon gg),
                    ''lastGeoSource'' \<mapsto> JStr (location_source_name (g_source gg))))"

text \<open>\<open>Math.atan2\<close> and the great-circle distance in kilometres.\<close>

definition atan2 :: "real \<Rightarrow> real \<Rightarrow> real" where
  "atan2 y x =
     (if x > 0 then arctan (y / x)
      else if x < 0 \<and> y \<ge> 0 then arctan (y / x) + pi
      else if x < 0 then arctan (y / x) - pi
      else if y > 0 then pi / 2
      else if y < 0 then - pi / 2
      else 0)"

definition haversineKm :: "real \<Rightarrow> real \<Rightarrow> real \<Rightarrow> real \<Rightarrow> real" where
  "haversineKm lat1 lon1 lat2 lon2 =
     (let R = 6371;
          dLat = (lat2 - lat1) * pi / 180;
          dLon = (lon2 - lon1) * pi / 180;
          a = (sin (dLat / 2))\<^sup>2
              + cos (lat1 * pi / 180) * cos (lat2 * pi / 180) * (sin (dLon / 2))\<^sup>2
      in R * 2 * atan2 (sqrt a) (sqrt (1 - a)))"

text \<open>
  The body of POST /api/ingest/telemetry.  Its type expresses the shape that
  \<open>telemetrySchema\<close> demands (an id, a timestamp, scalar metrics, an optional geo);
  \<open>telemetrySchema\<close> below is what remains to check.  \<open>z.string().uuid()\<close> on the device
  id is the format check of the zod library, whose pattern depends on its release: the
  model takes it as the parameter \<open>uuid\<close>.
\<close>

type_synonym uuid_check = "string \<Rightarrow> bool"

record telemetry_body =
  tb_deviceId :: string
  tb_ts :: int
  tb_metrics :: jsentries
  tb_geo :: "geo option"

definition telemetrySchema :: "uuid_check \<Rightarrow> telemetry_body \<Rightarrow> bool" where
  "telemetrySchema uuid body =
     (uuid (tb_deviceId body)
      \<and> list_all (\<lambda>kv. snd kv \<noteq> JNull) (tb_metrics body)
      \<and> (case tb_geo body of
            None \<Rightarrow> True
          | Some g \<Rightarrow> - 90 \<le> g_lat g \<and> g_lat g \<le> 90 \<and> - 180 \<le> g_lon g \<and> g_lon g \<le> 180
                      \<and> (g_source g = EDGE_GNSS \<or> g_source g = EDGE_CELL)))"

record ingest_response =
  ir_id :: string
  ir_warnings :: "warning list option"

text \<open>The update of the Device row: an \<open>undefined\<close> accuracy leaves the column as it is.\<close>

definition deviceUpdate :: "int \<Rightarrow> geo option \<Rightarrow> device \<Rightarrow> device" where
  "deviceUpdate ts g d =
     (case g of
        None \<Rightarrow> d\<lparr>d_lastSeenAt := Some ts\<rparr>
      | Some gg \<Rightarrow>
          d\<lparr>d_lastSeenAt := Some ts, d_deviceLat := Some (g_lat gg), d_deviceLon := Some (g_lon gg),
            d_deviceLocationTs := Some ts, d_deviceLocationSource := Some (g_source gg),
            d_deviceLocationAccuracyM :=
              (case g_accuracyM gg of None \<Rightarrow> d_deviceLocationAccuracyM d | Some a \<Rightarrow> Some a)\<rparr>)"

definition upsertTwin :: "string \<Rightarrow> int \<Rightarrow> jsobj \<Rightarrow> device_twin list \<Rightarrow> device_twin list" where
  "upsertTwin dev ts newState tws =
     (if list_ex (\<lambda>t. tw_deviceId t = dev) tws then
        updateWhere (\<lambda>t. tw_deviceId t = dev)
          (\<lambda>t. t\<lparr>tw_lastTs := Some ts, tw_derivedState := newState\<rparr>) tws
      else tws @ [\<lparr>tw_deviceId = dev, tw_lastTs = Some ts, tw_derivedState = newState\<rparr>])"

text \<open>
  The site geo reconciliation at the end of the handler, for a request that carries a
  geo and a device that has a site.  \<open>site\<close> is the row as it was read with the device at
  the start of the handler.
\<close>

definition reconcileSiteGeo :: "device \<Rightarrow> site \<Rightarrow> geo \<Rightarrow> int \<Rightarrow> db \<Rightarrow> db" where
  "reconcileSiteGeo dev site g now s =
     (let shouldUpdateSite =
            (\<not> s_locationLock site
             \<and> ((s_lat site = None \<and> s_lon site = None) \<or> s_lat site = None));
          s1 = (if shouldUpdateSite then
                  (let isFirstLocation = (s_lat site = None);
                       s' = s\<lparr>sites := updateWhere (\<lambda>x. s_id x = s_id site)
                              (\<lambda>x. x\<lparr>s_lat := Some (g_lat g), s_lon := Some (g_lon g),
                                      s_locationSource := Some (g_source g),
                                      s_locationAccuracyM :=
                                        (case g_accuracyM g of None \<Rightarrow> s_locationAccuracyM x
                                         | Some a \<Rightarrow> Some a),
                                      s_locationUpdatedAt := Some now\<rparr>)
                              (sites s)\<rparr>
                   in if isFirstLocation then
                        writeAuditLog (Some (d_tenantId dev)) None ACTOR_DEVICE
                          ''SITE_LOCATION_SET_FROM_DEVICE'' ''Site'' (s_id site) s'
                      else s')
                else s)
      in case (s_lat site, s_lon site) of
           (Some la, Some lo) \<Rightarrow>
             if haversineKm la lo (g_lat g) (g_lon g) > 1 then
               writeAuditLog (Some (d_tenantId dev)) None ACTOR_DEVICE
                 ''DEVICE_GEO_LARGE_JUMP'' ''Device'' (d_id dev) s1
             else s1
         | _ \<Rightarrow> s1)"

definition ingestTelemetry ::
  "uuid_check \<Rightarrow> str2num \<Rightarrow> request \<Rightarrow> telemetry_body \<Rightarrow> string \<Rightarrow> int \<Rightarrow> db
     \<Rightarrow> (app_error + ingest_response) \<times> db" where
  "ingestTelemetry uuid sn req body newId now s =
     (case authenticateDevice req of
        Inl e \<Rightarrow> (Inl e, s)
      | Inr r \<Rightarrow>
          if \<not> telemetrySchema uuid body then (Inl ZodError, s)
          else if deviceId r \<noteq> Some (tb_deviceId body) then
            (Inl (ValidationError ''Device ID mismatch with authentication''), s)
          else
            (case find (\<lambda>d. d_id d = tb_deviceId body) (devices s) of
               None \<Rightarrow> (Inl (NotFoundError ''Device'' (Some (tb_deviceId body))), s)
             | Some dev \<Rightarrow>
                 (let devSite = (case d_siteId dev of
                                   None \<Rightarrow> None
                                 | Some sid \<Rightarrow> find (\<lambda>x. s_id x = sid) (sites s));
                      warnings = validateMetricRanges (tb_metrics body)
                  in if list_ex (\<lambda>t. t_id t = newId) (telemetryTable s) then (Inl InternalError, s)
                     else
                       (let s1 = s\<lparr>telemetryTable := telemetryTable s @
                                   [\<lparr>t_id = newId, t_deviceId = tb_deviceId body, t_ts = tb_ts body,
                                     t_metrics = tb_metrics body, t_geo = tb_geo body\<rparr>]\<rparr>;
                            s2 = s1\<lparr>devices := updateWhere (\<lambda>d. d_id d = tb_deviceId body)
                                   (deviceUpdate (tb_ts body) (tb_geo body)) (devices s1)\<rparr>;
                            twin = find (\<lambda>t. tw_deviceId t = tb_deviceId body) (twins s2);
                            existingState = (case twin of None \<Rightarrow> Map.empty
                                             | Some t \<Rightarrow> tw_derivedState t);
                            newState = computeDerivedState sn (tb_metrics body) (tb_geo body)
                                         existingState;
                            s3 = s2\<lparr>twins := upsertTwin (tb_deviceId body) (tb_ts body) newState
                                   (twins s2)\<rparr>;
                            s4 = (case (tb_geo body, d_siteId dev, devSite) of
                                    (Some g, Some sid, Some site) \<Rightarrow>
                                      if sid \<noteq> [] then reconcileSiteGeo dev site g now s3 else s3
                                  | _ \<Rightarrow> s3)
                        in (Inr \<lparr>ir_id = newId,
                                 ir_warnings = (if warnings \<noteq> [] then Some warnings else None)\<rparr>,
                            s4)))))"

text \<open>
  The health score in the words of the specification: a metric is \<open>below\<close> (\<open>above\<close>) a
  bound when it is present and compares less (greater) than it.
\<close>

definition metricBelow :: "str2num \<Rightarrow> jsentries \<Rightarrow> string \<Rightarrow> real \<Rightarrow> bool" where
  "metricBelow sn metrics k bound =
     (case obj_get metrics k of None \<Rightarrow> False | Some v \<Rightarrow> js_lt sn (Some v) (Some (JNum bound)))"

definition metricAbove :: "str2num \<Rightarrow> jsentries \<Rightarrow> string \<Rightarrow> real \<Rightarrow> bool" where
  "metricAbove sn metrics k bound =
     (case obj_get metrics k of None \<Rightarrow> False | Some v \<Rightarrow> js_lt sn (Some (JNum bound)) (Some v))"

definition healthDeduction :: "str2num \<Rightarrow> jsentries \<Rightarrow> real" where
  "healthDeduction sn metrics =
     (if metricBelow sn metrics ''rssiDbm'' (- 100) then 20 else 0)
     + (if metricBelow sn metrics ''batteryPct'' 20 then 30 else 0)
     + (if metricAbove sn metrics ''tankTempC'' 85 then 20 else 0)"

section \<open>Notification dispatcher (modules/notifications/router.ts)\<close>






section \<open>Alert evaluator (modules/alerts/router.ts)\<close>

record config =
  overTempThresholdC :: real

text \<open>What the predicate of a rule finds for a device: the details of an alert, nothing, or an exception.\<close>

datatype predicate_outcome = Alert "(string \<times> jsval option) list" | NoAlert | Thrown

text \<open>
  The predicates of NO_TELEMETRY, POSSIBLE_LEAK and SENSOR_OUT_OF_RANGE read the clock
  and the telemetry history.  The sweep is modelled for any behaviour of theirs, a
  parameter \<open>others\<close>; the OVER_TEMP case is the code's.
\<close>

type_synonym other_predicates = "alert_rule \<Rightarrow> device \<Rightarrow> db \<Rightarrow> predicate_outcome"

definition dedupeKeyOf :: "device \<Rightarrow> alert_rule \<Rightarrow> string" where
  "dedupeKeyOf dev rule = d_id dev @ '':'' @ r_id rule"

text \<open>\<open>twin?.derivedState?.lastTankTempC\<close> and \<open>params.thresholdC || config.overTempThresholdC\<close>.\<close>

definition lastTankTempC :: "device \<Rightarrow> db \<Rightarrow> jsval option" where
  "lastTankTempC dev s =
     (case find (\<lambda>t. tw_deviceId t = d_id dev) (twins s) of
        None \<Rightarrow> None
      | Some twin \<Rightarrow> tw_derivedState twin ''lastTankTempC'')"

definition overTempThreshold :: "config \<Rightarrow> alert_rule \<Rightarrow> jsval option" where
  "overTempThreshold cfg rule =
     js_or (r_params rule ''thresholdC'') (Some (JNum (overTempThresholdC cfg)))"

definition overTempPredicate :: "config \<Rightarrow> str2num \<Rightarrow> alert_rule \<Rightarrow> device \<Rightarrow> db \<Rightarrow> predicate_outcome" where
  "overTempPredicate cfg sn rule dev s =
     (let temp = lastTankTempC dev s;
          threshold = overTempThreshold cfg rule
      in if truthy temp \<and> js_gt sn temp threshold
         then Alert [(''tankTempC'', temp), (''thresholdC'', threshold)]
         else NoAlert)"

text \<open>
  The state of a sweep: the store, the number of identifiers drawn so far from the
  sequence \<open>ids\<close> of generated identifiers, and the counter \<open>alertsCreated\<close>.
\<close>

record sweep =
  sw_db :: db
  sw_next :: nat
  sw_created :: nat

fun severity_name :: "alert_severity \<Rightarrow> string" where
  "severity_name INFO = ''INFO''"
| "severity_name WARNING = ''WARNING''"
| "severity_name CRITICAL = ''CRITICAL''"

text \<open>
  \<open>dispatchAlertNotifications\<close> over the tenant's enabled channels: the flag tells whether
  the loop completed (a rejected insert throws out of it).
\<close>

fun dispatchLoop ::
  "(nat \<Rightarrow> string) \<Rightarrow> int \<Rightarrow> string \<Rightarrow> string \<Rightarrow> alert_severity \<Rightarrow> notification_channel list
     \<Rightarrow> nat \<Rightarrow> db \<Rightarrow> bool \<times> nat \<times> db" where
  "dispatchLoop ids now tid aid sev [] n s = (True, n, s)"
| "dispatchLoop ids now tid aid sev (ch # rest) n s =
     (if ch_type ch = WEBHOOK \<or> sev \<noteq> INFO then
        (if list_ex (\<lambda>e. n_id e = ids n) (notificationEvents s) then (False, Suc n, s)
         else dispatchLoop ids now tid aid sev rest (Suc n)
                (s\<lparr>notificationEvents := notificationEvents s @
                     [\<lparr>n_id = ids n, n_tenantId = tid, n_channelId = ch_id ch,
                       n_alertEventId = Some aid, n_status = N_QUEUED, n_sentAt = None,
                       n_errorMsg = None, n_createdAt = now\<rparr>]\<rparr>))
      else dispatchLoop ids now tid aid sev rest n s)"

definition dispatchAlertNotifications ::
  "(nat \<Rightarrow> string) \<Rightarrow> int \<Rightarrow> string \<Rightarrow> string \<Rightarrow> alert_severity \<Rightarrow> nat \<Rightarrow> db \<Rightarrow> bool \<times> nat \<times> db" where
  "dispatchAlertNotifications ids now tid aid sev n s =
     dispatchLoop ids now tid aid sev
       (filter (\<lambda>c. ch_tenantId c = tid \<and> ch_enabled c) (notificationChannels s)) n s"

text \<open>
  The body of the inner loop of \<open>evaluateAlerts\<close> for one rule and one device.  An
  exception anywhere in the body is caught and logged, and the sweep goes on; the
  insert of the AlertEvent is rejected when its id or its dedupe key is already in the
  table (both columns are unique).
\<close>

definition evaluatePair ::
  "config \<Rightarrow> str2num \<Rightarrow> other_predicates \<Rightarrow> (nat \<Rightarrow> string) \<Rightarrow> int
     \<Rightarrow> alert_rule \<Rightarrow> device \<Rightarrow> sweep \<Rightarrow> sweep" where
  "evaluatePair cfg sn others ids now rule dev sw =
     (let s = sw_db sw;
          dedupeKey = dedupeKeyOf dev rule
      in if list_ex (\<lambda>e. ae_dedupeKey e = Some dedupeKey
                          \<and> (ae_status e = OPEN \<or> ae_status e = ACKNOWLEDGED)) (alertEvents s)
         then sw
         else
           (case (case r_type rule of
                    OVER_TEMP \<Rightarrow> overTempPredicate cfg sn rule dev s
                  | NO_TELEMETRY \<Rightarrow> others rule dev s
                  | POSSIBLE_LEAK \<Rightarrow> others rule dev s
                  | SENSOR_OUT_OF_RANGE \<Rightarrow> others rule dev s) of
              Thrown \<Rightarrow> sw
            | NoAlert \<Rightarrow> sw
            | Alert details \<Rightarrow>
                (let newId = ids (sw_next sw) in
                 if list_ex (\<lambda>e. ae_id e = newId \<or> ae_dedupeKey e = Some dedupeKey) (alertEvents s)
                 then sw\<lparr>sw_next := Suc (sw_next sw)\<rparr>
                 else
                   (let alertEvent =
                          \<lparr>ae_id = newId, ae_tenantId = r_tenantId rule, ae_deviceId = d_id dev,
                           ae_ruleId = r_id rule, ae_severity = r_severity rule,
                           ae_status = OPEN, ae_openedAt = now, ae_details = details,
                           ae_dedupeKey = Some dedupeKey\<rparr>;
                        s1 = s\<lparr>alertEvents := alertEvents s @ [alertEvent]\<rparr>;
                        r = dispatchAlertNotifications ids now (r_tenantId rule) (ae_id alertEvent)
                              (r_severity rule) (Suc (sw_next sw)) s1
                    in sw\<lparr>sw_db := snd (snd r), sw_next := fst (snd r),
                          sw_created := (if fst r then sw_created sw + 1 else sw_created sw)\<rparr>))))"

text \<open>The sweep: the enabled rules, each with the ACTIVE and INSTALLED devices of its tenant.\<close>

definition devicesOfRule :: "alert_rule \<Rightarrow> db \<Rightarrow> device list" where
  "devicesOfRule rule s =
     filter (\<lambda>d. d_tenantId d = r_tenantId rule \<and> (d_status d = ACTIVE \<or> d_status d = INSTALLED))
       (devices s)"

definition evaluateAlerts ::
  "config \<Rightarrow> str2num \<Rightarrow> other_predicates \<Rightarrow> (nat \<Rightarrow> string) \<Rightarrow> int \<Rightarrow> db \<Rightarrow> nat \<times> db" where
  "evaluateAlerts cfg sn others ids now s =
     (let rules = filter r_enabled (alertRules s);
          sw = fold (\<lambda>rule sw. fold (evaluatePair cfg sn others ids now rule)
                                  (devicesOfRule rule (sw_db sw)) sw)
                 rules \<lparr>sw_db = s, sw_next = 0, sw_created = 0\<rparr>
      in (sw_created sw, sw_db sw))"

section \<open>Dashboard summary (modules/analytics/router.ts)\<close>

record dashboard_summary =
  totalDevices :: nat
  devicesByStatus :: "(device_status \<times> nat) list"
  onlineCount :: nat
  onlinePercentage :: int
  activeAlerts :: nat
  alertsBySeverity :: "(alert_severity \<times> nat) list"
  todayEnergyKwh :: real
  sitesCount :: nat

text \<open>\<open>groupBy\<close> with \<open>_count\<close>: one group for each value that occurs.\<close>

definition groupCount :: "('a \<Rightarrow> 'b) \<Rightarrow> 'a list \<Rightarrow> ('b \<times> nat) list" where
  "groupCount f xs = map (\<lambda>v. (v, length (filter (\<lambda>x. f x = v) xs))) (remdups (map f xs))"

text \<open>
  \<open>Math.round\<close> rounds half up.  Its argument \<open>(onlineCount / totalDevices) * 100\<close> is
  computed on doubles, and the rounding of the quotient and of the product can move the
  result across a half: \<open>toDouble\<close> is the nearest double of a real in the normal range,
  ties to the even significand.
\<close>

definition js_round :: "real \<Rightarrow> int" where
  "js_round x = \<lfloor>x + 1 / 2\<rfloor>"

definition roundHalfEven :: "real \<Rightarrow> int" where
  "roundHalfEven y =
     (let f = \<lfloor>y\<rfloor>
      in if y - of_int f < 1 / 2 then f
         else if 1 / 2 < y - of_int f then f + 1
         else if even f then f else f + 1)"

definition toDouble :: "real \<Rightarrow> real" where
  "toDouble x =
     (if x = 0 then 0
      else let e = \<lfloor>log 2 \<bar>x\<bar>\<rfloor>;
               ulp = 2 powr (of_int e - 52)
           in of_int (roundHalfEven (x / ulp)) * ulp)"

text \<open>\<open>_sum\<close> of a nullable column: null when no row has a value.\<close>

definition sumNullable :: "real option list \<Rightarrow> real option" where
  "sumNullable vs =
     (if list_all (\<lambda>v. v = None) vs then None
      else Some (sum_list (map (\<lambda>v. case v of None \<Rightarrow> 0 | Some x \<Rightarrow> x) vs)))"

text \<open>
  GET /tenants/:tenantId/dashboard/summary: \<open>authenticateUser\<close>, \<open>loadUserContext\<close>, then the
  handler.  \<open>now\<close> is the clock and \<open>today\<close> the local midnight before it.
\<close>

definition dashboardSummary :: "request \<Rightarrow> int \<Rightarrow> int \<Rightarrow> db \<Rightarrow> app_error + dashboard_summary" where
  "dashboardSummary req now today s =
     (case andThen (authenticateUser req) (loadUserContext (membershipTable s)) of
        Inl e \<Rightarrow> Inl e
      | Inr r \<Rightarrow>
          (let tid = params_tenantId r;
               devs = filter (\<lambda>d. tenantFilter tid (d_tenantId d)) (devices s);
               byStatus = groupCount d_status devs;
               total = sum_list (map snd byStatus);
               thirtyMinAgo = now - 30 * 60 * 1000;
               online = length (filter (\<lambda>d. case d_lastSeenAt d of None \<Rightarrow> False
                                               | Some t \<Rightarrow> thirtyMinAgo \<le> t) devs);
               active = filter (\<lambda>e. tenantFilter tid (ae_tenantId e)
                                      \<and> (ae_status e = OPEN \<or> ae_status e = ACKNOWLEDGED))
                          (alertEvents s);
               energy = sumNullable (map ro_energyKwhDay
                          (filter (\<lambda>r. tenantFilter tid (ro_tenantId r) \<and> today \<le> ro_dayDate r)
                             (dailyRollups s)))
           in Inr \<lparr>totalDevices = total,
                   devicesByStatus = byStatus,
                   onlineCount = online,
                   onlinePercentage =
                     (if total > 0
                      then js_round (toDouble (toDouble (real online / real total) * 100))
                      else 0),
                   activeAlerts = length active,
                   alertsBySeverity = groupCount ae_severity active,
                   todayEnergyKwh = (case energy of None \<Rightarrow> 0 | Some x \<Rightarrow> x),
                   sitesCount = length (filter (\<lambda>x. tenantFilter tid (s_tenantId x)) (sites s))\<rparr>))"

section \<open>Auxiliary predicates and example data\<close>

text \<open>
  Every id of \<open>ids\<close> names a row of the Command table, and every row with such an id has
  left the QUEUED state.
\<close>

definition delivered_ids :: "string set \<Rightarrow> db \<Rightarrow> bool" where
  "delivered_ids ids s =
     (ids \<subseteq> c_id ` set (commands s)
      \<and> (\<forall>c\<in>set (commands s). c_id c \<in> ids \<longrightarrow> c_status c \<in> {DELIVERED, ACKED, FAILED}))"

text \<open>
  What holds of the state \<open>sw\<close> of a sweep that started at the store \<open>s\<close>: the devices and
  the twins are those of \<open>s\<close>, the AlertEvent table has only grown, and the id of every
  event is one of \<open>s\<close> or one of the identifiers drawn so far.
\<close>

definition sweepInv :: "(nat \<Rightarrow> string) \<Rightarrow> db \<Rightarrow> sweep \<Rightarrow> bool" where
  "sweepInv ids s sw =
     (devices (sw_db sw) = devices s \<and> twins (sw_db sw) = twins s
      \<and> (\<exists>new. alertEvents (sw_db sw) = alertEvents s @ new)
      \<and> (\<forall>e \<in> set (alertEvents (sw_db sw)).
            ae_id e \<in> ae_id ` set (alertEvents s) \<union> ids ` {..< sw_next sw}))"

text \<open>A device-authenticated request of device \<open>d\<close> for its own path, and a small queue.\<close>

definition device_request :: "string \<Rightarrow> request" where
  "device_request d = blank_request\<lparr>device_token := VerifiedDevice d, params_id := Some d\<rparr>"

definition mk_command :: "string \<Rightarrow> string \<Rightarrow> command_status \<Rightarrow> int \<Rightarrow> command" where
  "mk_command i d st t =
     \<lparr>c_id = i, c_deviceId = d, c_type = REMOTE_BOOST_SET, c_payload = ''{}'', c_status = st,
      c_requestedByUserId = None, c_requestedAt = t, c_deliveredAt = None, c_ackAt = None,
      c_errorMsg = None\<rparr>"

definition example_commands :: db where
  "example_commands =
     empty_db\<lparr>commands :=
       [mk_command ''c1'' ''d1'' QUEUED 20, mk_command ''c2'' ''d1'' QUEUED 10,
        mk_command ''c3'' ''d1'' ACKED 5, mk_command ''c4'' ''d2'' QUEUED 1]\<rparr>"

text \<open>
  A device id in the version-4 shape of RFC 4122, and a check of that shape, which is at
  least as strict as the uuid check of every release of zod.
\<close>

definition example_device :: string where
  "example_device = ''3f2504e0-4f89-41d3-9a0c-0305e82c3301''"

definition hexDigit :: "char \<Rightarrow> bool" where
  "hexDigit c = (c \<in> set ''0123456789abcdefABCDEF'')"

definition uuidChar :: "char \<Rightarrow> char \<Rightarrow> bool" where
  "uuidChar p c =
     (if p = CHR ''h'' then hexDigit c
      else if p = CHR ''v'' then c \<in> set ''89abAB''
      else c = p)"

definition uuidV4 :: "string \<Rightarrow> bool" where
  "uuidV4 s = list_all2 uuidChar ''hhhhhhhh-hhhh-4hhh-vhhh-hhhhhhhhhhhh'' s"

text \<open>A tenant-level grant of BASIC_REMOTE_BOOST with a device-level override.\<close>

definition example_entitlements :: "entitlement list" where
  "example_entitlements =
     [\<lparr>e_id = ''e1'', e_tenantId = ''t1'', e_scope = TENANT, e_deviceId = None,
       e_key = ''BASIC_REMOTE_BOOST'', e_enabled = True\<rparr>,
      \<lparr>e_id = ''e2'', e_tenantId = ''t1'', e_scope = DEVICE, e_deviceId = Some ''d1'',
       e_key = ''BASIC_REMOTE_BOOST'', e_enabled = False\<rparr>]"

text \<open>
  The row that PUT /api/entitlements stores for the body
  \<open>{scope: TENANT, deviceId: <uuid>, key: SMART_HOME_INTEGRATION, enabled: true}\<close>.
\<close>

definition bound_grant :: "entitlement list" where
  "bound_grant =
     [\<lparr>e_id = ''e3'', e_tenantId = ''t1'', e_scope = TENANT, e_deviceId = Some example_device,
       e_key = ''SMART_HOME_INTEGRATION'', e_enabled = True\<rparr>]"

text \<open>
  A device of tenant B, and a job of tenant A that targets a device of tenant A.
\<close>

definition mk_device :: "string \<Rightarrow> string \<Rightarrow> string option \<Rightarrow> device_status \<Rightarrow> device" where
  "mk_device i t site st =
     \<lparr>d_id = i, d_tenantId = t, d_siteId = site, d_status = st, d_lastSeenAt = None,
      d_firmwareVersion = None, d_deviceLat = None, d_deviceLon = None,
      d_deviceLocationTs = None, d_deviceLocationSource = None,
      d_deviceLocationAccuracyM = None\<rparr>"

definition example_job :: ota_job where
  "example_job =
     \<lparr>j_id = ''job-a'', j_tenantId = ''tenant-a'', j_targetType = TARGET_DEVICE,
      j_deviceId = Some ''dev-a'', j_firmwarePackageId = ''fw1'', j_status = SCHEDULED,
      j_scheduledAt = 5000, j_startedAt = None, j_finishedAt = None, j_progress = None\<rparr>"

definition example_ota :: db where
  "example_ota =
     empty_db\<lparr>devices := [mk_device ''dev-a'' ''tenant-a'' None ACTIVE,
                           mk_device ''dev-b'' ''tenant-b'' None ACTIVE],
              firmwarePackages := [\<lparr>f_id = ''fw1'', f_version = ''2.0.0''\<rparr>],
              otaJobs := [example_job]\<rparr>"

definition success_report :: ota_report_body where
  "success_report =
     \<lparr>rb_jobId = Some ''job-a'', rb_status = Some (JStr ''SUCCESS''), rb_progress = None\<rparr>"

text \<open>
  A device on a locked site with coordinates, and a reading whose geo is far from them.
\<close>

definition example_site :: site where
  "example_site =
     \<lparr>s_id = ''site-1'', s_tenantId = ''tenant-a'', s_lat = Some (37975 / 1000),
      s_lon = Some (23735 / 1000), s_locationSource = Some MANUAL, s_locationAccuracyM = Some 5,
      s_locationUpdatedAt = Some 1000, s_locationLock = True\<rparr>"

definition example_fleet :: db where
  "example_fleet =
     empty_db\<lparr>devices := [mk_device example_device ''tenant-a'' (Some ''site-1'') ACTIVE],
              sites := [example_site]\<rparr>"

definition example_reading :: telemetry_body where
  "example_reading =
     \<lparr>tb_deviceId = example_device, tb_ts = 7000,
      tb_metrics = [(''tankTempC'', JNum 90), (''rssiDbm'', JNum (- 105)),
                    (''batteryPct'', JNum 92), (''heaterOn'', JBool True)],
      tb_geo = Some \<lparr>g_lat = 385 / 10, g_lon = 245 / 10, g_accuracyM = Some 50,
                      g_source = EDGE_GNSS\<rparr>\<rparr>"

text \<open>What a run writes to a selected event, given the outcome of its delivery.\<close>

fun outcomeUpdate :: "string option \<Rightarrow> int \<Rightarrow> notification_event \<Rightarrow> notification_event" where
  "outcomeUpdate None now e = e\<lparr>n_status := N_SENT, n_sentAt := Some now\<rparr>"
| "outcomeUpdate (Some msg) now e = e\<lparr>n_status := N_FAILED, n_errorMsg := Some msg\<rparr>"







text \<open>
  An enabled OVER_TEMP rule with threshold 0, an ACTIVE device of its tenant whose twin
  reports 50 degrees, the default configuration, and a sweep that is about to start.
\<close>

definition example_rule :: alert_rule where
  "example_rule =
     \<lparr>r_id = ''rule-1'', r_tenantId = ''tenant-a'', r_enabled = True, r_type = OVER_TEMP,
      r_params = [''thresholdC'' \<mapsto> JNum 0], r_severity = CRITICAL\<rparr>"

definition example_alerting :: db where
  "example_alerting =
     empty_db\<lparr>devices := [mk_device ''dev-a'' ''tenant-a'' None ACTIVE],
              twins := [\<lparr>tw_deviceId = ''dev-a'', tw_lastTs = Some 7000,
                         tw_derivedState = [''lastTankTempC'' \<mapsto> JNum 50]\<rparr>],
              alertRules := [example_rule]\<rparr>"

definition example_config :: config where
  "example_config = \<lparr>overTempThresholdC = 85\<rparr>"

definition noOtherAlerts :: other_predicates where
  "noOtherAlerts rule dev s = NoAlert"

definition example_ids :: "nat \<Rightarrow> string" where
  "example_ids n = CHR ''a'' # replicate n (CHR ''x'')"

definition example_sweep :: sweep where
  "example_sweep = \<lparr>sw_db = example_alerting, sw_next = 0, sw_created = 0\<rparr>"

text \<open>The same rule and fleet with the threshold \<open>c\<close>.\<close>

definition rule_at :: "real \<Rightarrow> alert_rule" where
  "rule_at c = example_rule\<lparr>r_params := [''thresholdC'' \<mapsto> JNum c]\<rparr>"

definition alerting_at :: "real \<Rightarrow> db" where
  "alerting_at c = example_alerting\<lparr>alertRules := [rule_at c]\<rparr>"

text \<open>
  Two tenants; a user whose only membership is in tenant B, asking for the dashboard of
  tenant A.
\<close>

definition example_tenants :: db where
  "example_tenants =
     empty_db\<lparr>membershipTable :=
                [\<lparr>m_userId = ''user-b'', m_tenantId = ''tenant-b'', m_role = TENANT_ADMIN\<rparr>],
              devices := [mk_device ''dev-a'' ''tenant-a'' (Some ''site-1'') ACTIVE,
                          mk_device ''dev-b'' ''tenant-b'' None ACTIVE],
              sites := [example_site],
              alertEvents :=
                [\<lparr>ae_id = ''alert-1'', ae_tenantId = ''tenant-a'', ae_deviceId = ''dev-a'',
                  ae_ruleId = ''rule-1'', ae_severity = CRITICAL, ae_status = OPEN,
                  ae_openedAt = 4000, ae_details = [], ae_dedupeKey = Some ''dev-a:rule-1''\<rparr>],
              dailyRollups :=
                [\<lparr>ro_tenantId = ''tenant-a'', ro_deviceId = ''dev-a'', ro_dayDate = 0,
                  ro_energyKwhDay = Some (7 / 2)\<rparr>]\<rparr>"

definition foreign_request :: request where
  "foreign_request =
     blank_request\<lparr>bearer := VerifiedUser \<lparr>userId = ''user-b'', email = ''b@example.org''\<rparr>,
                    params_tenantId := Some ''tenant-a''\<rparr>"

section \<open>Properties of the tenancy guard\<close>

text \<open>
  C6, as the claim states it, at a concrete request: a TENANT_ADMIN of tenant B who names
  no tenant in the path, the header or the query.  The guard answers VALIDATION_ERROR
  with status 400, not FORBIDDEN with status 403.
\<close>

theorem C6_missing_tenant_is_not_forbidden:
  "error_code (enforceTenancy (blank_request\<lparr>user := Some \<lparr>u_userId = ''u1'',
       u_email = ''b@example.org'', memberships = [(''tenant-b'', TENANT_ADMIN)]\<rparr>\<rparr>))
     = Some ''VALIDATION_ERROR''
   \<and> error_code (enforceTenancy (blank_request\<lparr>user := Some \<lparr>u_userId = ''u1'',
       u_email = ''b@example.org'', memberships = [(''tenant-b'', TENANT_ADMIN)]\<rparr>\<rparr>))
     \<noteq> Some ''FORBIDDEN''
   \<and> error_status (enforceTenancy (blank_request\<lparr>user := Some \<lparr>u_userId = ''u1'',
       u_email = ''b@example.org'', memberships = [(''tenant-b'', TENANT_ADMIN)]\<rparr>\<rparr>))
     = Some 400"
  by (simp add: enforceTenancy_def blank_request_def requestedTenantId_def str_or_def
      isPlatformAdmin_def ValidationError_def)

text \<open>
  C6, amended: an authenticated user request (not a device request) by a user who holds
  no PLATFORM_ADMIN membership, naming no tenant id in the path, in the \<open>x-tenant-id\<close>
  header or as a string \<open>tenantId\<close> query value, fails with the error code
  VALIDATION_ERROR and HTTP status 400.
\<close>

theorem C6_missing_tenant_validation_error:
  assumes "\<not> isDeviceAuth req"
    and "user req = Some u"
    and "\<not> isPlatformAdmin u"
    and "\<not> truthy_str (params_tenantId req)"
    and "\<not> truthy_str (header_x_tenant_id req)"
    and "\<forall>s. query_tenantId req = Some (QStr s) \<longrightarrow> s = []"
  shows "enforceTenancy req
           = Inl (ValidationError ''x-tenant-id header or tenantId parameter is required'')
         \<and> error_code (enforceTenancy req) = Some ''VALIDATION_ERROR''
         \<and> error_status (enforceTenancy req) = Some 400"
proof -
  have "\<not> truthy_str (requestedTenantId req)"
    using assms(4-6)
    by (auto simp: requestedTenantId_def str_or_def split: option.splits qval.splits)
  then have "enforceTenancy req
      = Inl (ValidationError ''x-tenant-id header or tenantId parameter is required'')"
    using assms(1-3) by (simp add: enforceTenancy_def Let_def)
  then show ?thesis by (simp add: ValidationError_def)
qed

theorem C6_missing_tenant_validation_error_witness:
  "enforceTenancy (blank_request\<lparr>user := Some \<lparr>u_userId = ''u1'',
       u_email = ''b@example.org'', memberships = [(''tenant-b'', END_USER)]\<rparr>,
       query_tenantId := Some (QArr [''tenant-a'', ''tenant-b''])\<rparr>)
     = Inl (AppError 400 ''VALIDATION_ERROR''
         ''x-tenant-id header or tenantId parameter is required'')"
  using C6_missing_tenant_validation_error
    [of "blank_request\<lparr>user := Some \<lparr>u_userId = ''u1'',
       u_email = ''b@example.org'', memberships = [(''tenant-b'', END_USER)]\<rparr>,
       query_tenantId := Some (QArr [''tenant-a'', ''tenant-b''])\<rparr>"
       "\<lparr>u_userId = ''u1'', u_email = ''b@example.org'',
         memberships = [(''tenant-b'', END_USER)]\<rparr>"]
  by (simp add: blank_request_def isPlatformAdmin_def ValidationError_def)

text \<open>
  Tenant enforcement: a user request that names a tenant in which the user holds no
  membership, by a user who is not a PLATFORM_ADMIN, fails with FORBIDDEN (status 403).
\<close>

theorem enforceTenancy_foreign_tenant_forbidden:
  assumes "\<not> isDeviceAuth req" and "user req = Some u" and "\<not> isPlatformAdmin u"
    and "requestedTenantId req = Some tid" and "tid \<noteq> []"
    and "tid \<notin> fst ` set (memberships u)"
  shows "enforceTenancy req = Inl (ForbiddenError ''Access denied: not a member of this tenant'')
       \<and> error_code (enforceTenancy req) = Some ''FORBIDDEN''
       \<and> error_status (enforceTenancy req) = Some 403"
proof -
  from assms(6) have "find (\<lambda>m. Some (fst m) = Some tid) (memberships u) = None"
    by (force simp: find_None_iff)
  with assms(1-5) have "enforceTenancy req
      = Inl (ForbiddenError ''Access denied: not a member of this tenant'')"
    by (simp add: enforceTenancy_def Let_def)
  then show ?thesis by (simp add: ForbiddenError_def)
qed

theorem enforceTenancy_foreign_tenant_forbidden_witness:
  "enforceTenancy (blank_request\<lparr>user := Some \<lparr>u_userId = ''user-b'', u_email = ''b@example.org'',
        memberships = [(''tenant-b'', TENANT_ADMIN)]\<rparr>, header_x_tenant_id := Some ''tenant-a''\<rparr>)
     = Inl (AppError 403 ''FORBIDDEN'' ''Access denied: not a member of this tenant'')"
proof -
  let ?u = "\<lparr>u_userId = ''user-b'', u_email = ''b@example.org'',
        memberships = [(''tenant-b'', TENANT_ADMIN)]\<rparr>"
  let ?req = "blank_request\<lparr>user := Some ?u, header_x_tenant_id := Some ''tenant-a''\<rparr>"
  have h: "\<not> isDeviceAuth ?req" "user ?req = Some ?u" "\<not> isPlatformAdmin ?u"
    "requestedTenantId ?req = Some ''tenant-a''" "''tenant-a'' \<noteq> []"
    "''tenant-a'' \<notin> fst ` set (memberships ?u)"
    by (simp_all add: blank_request_def isPlatformAdmin_def requestedTenantId_def str_or_def)
  from enforceTenancy_foreign_tenant_forbidden [OF h]
  show ?thesis by (simp add: ForbiddenError_def)
qed

section \<open>Properties of the entitlement gate\<close>

lemma find_filter_Nil: "find P xs = None \<longleftrightarrow> filter P xs = []"
  by (induction xs) auto

lemma find_filter_Cons: "find P xs = Some x \<Longrightarrow> \<exists>ys. filter P xs = x # ys"
  by (induction xs) (auto split: if_splits)

text \<open>
  C4, as the claim states it, at a concrete store: the only row is a scope-TENANT row of
  the tenant and key that carries a device id, enabled.  No scope-DEVICE row exists and
  a scope-TENANT row exists, so the claimed rule answers with that row's flag, true;
  \<open>checkEntitlement\<close> answers false, with or without the device id, because the
  tenant-level lookup asks for \<open>deviceId: null\<close>.
\<close>

theorem C4_bound_tenant_row_counterexample:
  "map (\<lambda>e. (e_scope e, e_enabled e)) (tenantRows bound_grant ''t1'' ''SMART_HOME_INTEGRATION'')
     = [(TENANT, True)]
   \<and> deviceRows bound_grant ''t1'' ''SMART_HOME_INTEGRATION'' (Some example_device) = []
   \<and> entitlementRule
         (map e_enabled (deviceRows bound_grant ''t1'' ''SMART_HOME_INTEGRATION'' (Some example_device)))
         (map e_enabled (tenantRows bound_grant ''t1'' ''SMART_HOME_INTEGRATION''))
         ''SMART_HOME_INTEGRATION'' = True
   \<and> entitlementRule
         (map e_enabled (deviceRows bound_grant ''t1'' ''SMART_HOME_INTEGRATION'' None))
         (map e_enabled (tenantRows bound_grant ''t1'' ''SMART_HOME_INTEGRATION''))
         ''SMART_HOME_INTEGRATION'' = True
   \<and> checkEntitlement bound_grant ''t1'' ''SMART_HOME_INTEGRATION'' (Some example_device) = False
   \<and> checkEntitlement bound_grant ''t1'' ''SMART_HOME_INTEGRATION'' None = False"
  by (simp add: tenantRows_def deviceRows_def bound_grant_def checkEntitlement_def
        example_device_def)

text \<open>
  C4, amended: for every tenant, key and optional device id (device ids are non-empty
  strings), \<open>checkEntitlement\<close> returns the enabled flag of the scope-DEVICE row for that
  device when one exists, otherwise that of the scope-TENANT row that carries no device
  id when one exists, otherwise true for BASIC_REMOTE_BOOST and false for any other key;
  and a gated request with a tenant context whose check resolves to false fails with
  FEATURE_DISABLED (status 403).
\<close>

theorem C4_entitlement_resolution:
  assumes "dev \<noteq> Some []"
  shows "checkEntitlement rows tid key dev
           = entitlementRule (map e_enabled (deviceRows rows tid key dev))
               (map e_enabled (unboundTenantRows rows tid key)) key
         \<and> (tenantId req = Some tid \<and> tid \<noteq> []
              \<and> \<not> checkEntitlement rows tid key (str_or (params_id req) (params_deviceId req))
            \<longrightarrow> requireEntitlement rows key req = Inl (EntitlementError key)
                \<and> error_code (requireEntitlement rows key req) = Some ''FEATURE_DISABLED''
                \<and> error_status (requireEntitlement rows key req) = Some 403)"
proof (intro conjI impI)
  let ?pt = "\<lambda>e. e_tenantId e = tid \<and> e_key e = key \<and> e_scope e = TENANT \<and> e_deviceId e = None"
  have pt: "unboundTenantRows rows tid key = filter ?pt rows"
    unfolding unboundTenantRows_def by (rule filter_cong) auto
  have tenant_level:
    "(let tenantEntitlement = find ?pt rows
      in if tenantEntitlement = None \<and> key = ''BASIC_REMOTE_BOOST'' then True
         else case tenantEntitlement of Some te \<Rightarrow> e_enabled te | None \<Rightarrow> False)
     = entitlementRule [] (map e_enabled (unboundTenantRows rows tid key)) key"
  proof (cases "find ?pt rows")
    case None
    then have "filter ?pt rows = []" by (simp add: find_filter_Nil)
    with None show ?thesis by (simp add: pt defaultEntitlement_def)
  next
    case (Some te)
    then obtain ys where "filter ?pt rows = te # ys" using find_filter_Cons by fastforce
    with Some show ?thesis by (simp add: pt)
  qed
  show "checkEntitlement rows tid key dev
           = entitlementRule (map e_enabled (deviceRows rows tid key dev))
               (map e_enabled (unboundTenantRows rows tid key)) key"
  proof (cases dev)
    case None
    then show ?thesis
      using tenant_level by (simp add: checkEntitlement_def deviceRows_def)
  next
    case (Some d)
    with assms have d: "d \<noteq> []" by simp
    let ?qd = "\<lambda>e. e_tenantId e = tid \<and> e_key e = key \<and> e_deviceId e = Some d \<and> e_scope e = DEVICE"
    have qd: "deviceRows rows tid key (Some d) = filter ?qd rows"
      unfolding deviceRows_def by simp (rule filter_cong, auto)
    show ?thesis
      unfolding \<open>dev = Some d\<close>
    proof (cases "find ?qd rows")
      case None
      then have "filter ?qd rows = []" by (simp add: find_filter_Nil)
      with None d show "checkEntitlement rows tid key (Some d)
           = entitlementRule (map e_enabled (deviceRows rows tid key (Some d)))
               (map e_enabled (unboundTenantRows rows tid key)) key"
        using tenant_level by (simp add: checkEntitlement_def qd)
    next
      case (Some de)
      then obtain ys where "filter ?qd rows = de # ys" using find_filter_Cons by fastforce
      with Some d show "checkEntitlement rows tid key (Some d)
           = entitlementRule (map e_enabled (deviceRows rows tid key (Some d)))
               (map e_enabled (unboundTenantRows rows tid key)) key"
        by (simp add: checkEntitlement_def qd)
    qed
  qed
next
  assume a: "tenantId req = Some tid \<and> tid \<noteq> []
              \<and> \<not> checkEntitlement rows tid key (str_or (params_id req) (params_deviceId req))"
  then show "requireEntitlement rows key req = Inl (EntitlementError key)"
    by (simp add: requireEntitlement_def Let_def)
  then show "error_code (requireEntitlement rows key req) = Some ''FEATURE_DISABLED''"
    and "error_status (requireEntitlement rows key req) = Some 403"
    by (simp_all add: EntitlementError_def)
qed


theorem C4_entitlement_resolution_witness:
  "Some ''d1'' \<noteq> Some []
   \<and> checkEntitlement example_entitlements ''t1'' ''BASIC_REMOTE_BOOST'' (Some ''d1'') = False
   \<and> checkEntitlement example_entitlements ''t1'' ''BASIC_REMOTE_BOOST'' (Some ''d2'') = True
   \<and> requireEntitlement example_entitlements ''BASIC_REMOTE_BOOST''
        (blank_request\<lparr>tenantId := Some ''t1'', params_id := Some ''d1''\<rparr>)
       = Inl (AppError 403 ''FEATURE_DISABLED''
           ''Feature 'BASIC_REMOTE_BOOST' is not enabled for this tenant/device. Contact your administrator.'')"
proof -
  have h: "Some ''d1'' \<noteq> Some []" by simp
  have h2: "Some ''d2'' \<noteq> Some []" by simp
  have r1: "entitlementRule (map e_enabled (deviceRows example_entitlements ''t1'' ''BASIC_REMOTE_BOOST'' (Some ''d1'')))
               (map e_enabled (unboundTenantRows example_entitlements ''t1'' ''BASIC_REMOTE_BOOST'')) ''BASIC_REMOTE_BOOST'' = False"
    by (simp add: deviceRows_def unboundTenantRows_def example_entitlements_def)
  have r2: "entitlementRule (map e_enabled (deviceRows example_entitlements ''t1'' ''BASIC_REMOTE_BOOST'' (Some ''d2'')))
               (map e_enabled (unboundTenantRows example_entitlements ''t1'' ''BASIC_REMOTE_BOOST'')) ''BASIC_REMOTE_BOOST'' = True"
    by (simp add: deviceRows_def unboundTenantRows_def example_entitlements_def)
  let ?req = "blank_request\<lparr>tenantId := Some ''t1'', params_id := Some ''d1''\<rparr>"
  have p: "str_or (params_id ?req) (params_deviceId ?req) = Some ''d1''" "tenantId ?req = Some ''t1''"
    by (simp_all add: blank_request_def str_or_def)
  note a = C4_entitlement_resolution [OF h, of example_entitlements "''t1''" "''BASIC_REMOTE_BOOST''" ?req]
  note b = C4_entitlement_resolution [OF h2, of example_entitlements "''t1''" "''BASIC_REMOTE_BOOST''" ?req]
  from a r1 have c1: "checkEntitlement example_entitlements ''t1'' ''BASIC_REMOTE_BOOST'' (Some ''d1'') = False"
    by simp
  from b r2 have c2: "checkEntitlement example_entitlements ''t1'' ''BASIC_REMOTE_BOOST'' (Some ''d2'') = True"
    by simp
  from a c1 p have "requireEntitlement example_entitlements ''BASIC_REMOTE_BOOST'' ?req
       = Inl (EntitlementError ''BASIC_REMOTE_BOOST'')" by simp
  then have c3: "requireEntitlement example_entitlements ''BASIC_REMOTE_BOOST'' ?req
       = Inl (AppError 403 ''FEATURE_DISABLED''
           ''Feature 'BASIC_REMOTE_BOOST' is not enabled for this tenant/device. Contact your administrator.'')"
    by (simp add: EntitlementError_def)
  from h c1 c2 c3 show ?thesis by blast
qed


section \<open>Properties of the command queue\<close>

lemma commands_writeAuditLog [simp]: "commands (writeAuditLog a b c d e f s) = commands s"
  by (simp add: writeAuditLog_def)

lemma image_updateWhere: "(\<And>x. g (f x) = g x) \<Longrightarrow> g ` set (updateWhere P f xs) = g ` set xs"
proof -
  assume "\<And>x. g (f x) = g x"
  then have "map g (updateWhere P f xs) = map g xs" by (simp add: updateWhere_def)
  then have "set (map g (updateWhere P f xs)) = set (map g xs)" by simp
  then show ?thesis by simp
qed

lemma createCommand_commands:
  "commands (snd (createCommand req ty payload newId now s)) = commands s
   \<or> (newId \<notin> c_id ` set (commands s)
      \<and> (\<exists>c. c_id c = newId \<and> commands (snd (createCommand req ty payload newId now s)) = commands s @ [c]))"
  by (auto simp: createCommand_def createCommandHandler_def Let_def list_ex_iff
      split: sum.splits option.splits)

lemma pendingCommands_commands:
  "\<exists>P. commands (snd (pendingCommands req now s))
     = updateWhere P (\<lambda>c. c\<lparr>c_status := DELIVERED, c_deliveredAt := Some now\<rparr>) (commands s)"
proof -
  let ?f = "\<lambda>c. c\<lparr>c_status := DELIVERED, c_deliveredAt := Some now\<rparr>"
  have "snd (pendingCommands req now s) = s
      \<or> (\<exists>P. snd (pendingCommands req now s) = s\<lparr>commands := updateWhere P ?f (commands s)\<rparr>)"
    by (auto simp: pendingCommands_def Let_def split: sum.splits)
  moreover have "commands s = updateWhere (\<lambda>c. False) ?f (commands s)"
    by (simp add: updateWhere_def)
  ultimately show ?thesis
  proof (cases "snd (pendingCommands req now s) = s")
    case True
    with \<open>commands s = updateWhere (\<lambda>c. False) ?f (commands s)\<close> show ?thesis
      by (intro exI [of _ "\<lambda>c. False"]) simp
  next
    case False
    with \<open>snd (pendingCommands req now s) = s
      \<or> (\<exists>P. snd (pendingCommands req now s) = s\<lparr>commands := updateWhere P ?f (commands s)\<rparr>)\<close>
    obtain P where "snd (pendingCommands req now s) = s\<lparr>commands := updateWhere P ?f (commands s)\<rparr>"
      by blast
    then have "commands (snd (pendingCommands req now s)) = updateWhere P ?f (commands s)" by simp
    then show ?thesis by blast
  qed
qed

lemma ackCommand_commands:
  "commands (snd (ackCommand req cid body now s)) = commands s
   \<or> (\<exists>P st. st \<in> {ACKED, FAILED} \<and> commands (snd (ackCommand req cid body now s))
        = updateWhere P (\<lambda>c. c\<lparr>c_status := st, c_ackAt := Some now,
                                     c_errorMsg := nonEmpty (b_errorMsg body)\<rparr>) (commands s))"
  apply (simp add: ackCommand_def Let_def ackCommandSchema_def split: sum.splits option.splits)
  apply (intro conjI impI allI)
  by blast+

lemma delivered_ids_step:
  assumes "command_steps s s'" and "delivered_ids ids s"
  shows "delivered_ids ids s'"
  using assms
proof (induction rule: command_steps.induct)
  case (steps_refl s)
  then show ?case by simp
next
  case (steps_create s s1 req ty payload newId now)
  then have I: "delivered_ids ids s1" by simp
  from createCommand_commands [of req ty payload newId now s1]
  show ?case
  proof
    assume "commands (snd (createCommand req ty payload newId now s1)) = commands s1"
    with I show ?thesis by (simp add: delivered_ids_def)
  next
    assume "newId \<notin> c_id ` set (commands s1) \<and>
      (\<exists>c. c_id c = newId \<and> commands (snd (createCommand req ty payload newId now s1)) = commands s1 @ [c])"
    then obtain c where n: "newId \<notin> c_id ` set (commands s1)" and c: "c_id c = newId"
      and e: "commands (snd (createCommand req ty payload newId now s1)) = commands s1 @ [c]" by blast
    from I n have "newId \<notin> ids" by (auto simp: delivered_ids_def)
    with I c e show ?thesis by (auto simp: delivered_ids_def)
  qed
next
  case (steps_pending s s1 req now)
  then have I: "delivered_ids ids s1" by simp
  obtain P where e: "commands (snd (pendingCommands req now s1))
     = updateWhere P (\<lambda>c. c\<lparr>c_status := DELIVERED, c_deliveredAt := Some now\<rparr>) (commands s1)"
    using pendingCommands_commands by blast
  have "c_id ` set (commands (snd (pendingCommands req now s1))) = c_id ` set (commands s1)"
    unfolding e by (rule image_updateWhere) simp
  with I show ?case unfolding delivered_ids_def e
    by (auto simp: updateWhere_def)
next
  case (steps_ack s s1 req commandId body now)
  then have I: "delivered_ids ids s1" by simp
  from ackCommand_commands [of req commandId body now s1]
  show ?case
  proof
    assume "commands (snd (ackCommand req commandId body now s1)) = commands s1"
    with I show ?thesis by (simp add: delivered_ids_def)
  next
    assume "\<exists>P st. st \<in> {ACKED, FAILED} \<and> commands (snd (ackCommand req commandId body now s1))
        = updateWhere P (\<lambda>c. c\<lparr>c_status := st, c_ackAt := Some now,
                                     c_errorMsg := nonEmpty (b_errorMsg body)\<rparr>) (commands s1)"
    then obtain P st where st: "st \<in> {ACKED, FAILED}"
      and e: "commands (snd (ackCommand req commandId body now s1))
        = updateWhere P (\<lambda>c. c\<lparr>c_status := st, c_ackAt := Some now,
                                     c_errorMsg := nonEmpty (b_errorMsg body)\<rparr>) (commands s1)" by blast
    have "c_id ` set (commands (snd (ackCommand req commandId body now s1))) = c_id ` set (commands s1)"
      unfolding e by (rule image_updateWhere) simp
    with I st show ?thesis unfolding delivered_ids_def e
      by (auto simp: updateWhere_def)
  qed
next
  case (steps_other s s1 s2)
  then show ?case by (simp add: delivered_ids_def)
qed

lemma pendingCommands_verified:
  assumes "device_token req = VerifiedDevice d" and "params_id req = Some d"
  shows "pendingCommands req now s =
    (let cmds = sort_key c_requestedAt
                  (filter (\<lambda>c. c_deviceId c = d \<and> c_status c = QUEUED) (commands s))
     in (Inr cmds,
         if cmds = [] then s
         else s\<lparr>commands := updateWhere (\<lambda>c. c_id c \<in> c_id ` set cmds)
                (\<lambda>c. c\<lparr>c_status := DELIVERED, c_deliveredAt := Some now\<rparr>) (commands s)\<rparr>))"
  using assms by (simp add: pendingCommands_def authenticateDevice_def Let_def)

lemma filter_updateWhere_delivered:
  assumes "\<And>c. c \<in> set xs \<Longrightarrow> c_deviceId c = d \<Longrightarrow> c_status c = QUEUED \<Longrightarrow> P c"
  shows "filter (\<lambda>c. c_deviceId c = d \<and> c_status c = QUEUED)
           (updateWhere P (\<lambda>c. c\<lparr>c_status := DELIVERED, c_deliveredAt := t\<rparr>) xs) = []"
  using assms by (induction xs) (auto simp: updateWhere_def)

text \<open>
  C2: a poll of /pending by an authenticated device for its own id returns exactly the
  QUEUED commands of that device (as a multiset), in ascending \<open>requestedAt\<close> order; in the
  store that the poll leaves, every row with the id of a returned command is DELIVERED
  with \<open>deliveredAt\<close> set to the time of the poll; an immediately repeated poll returns
  the empty list; and after any further operations of the service no row with the id of
  a returned command is QUEUED again: its status stays in DELIVERED, ACKED, FAILED.
\<close>

theorem C2_pending_poll:
  assumes "device_token req = VerifiedDevice d" and "params_id req = Some d"
  shows "\<exists>cmds. fst (pendingCommands req now s) = Inr cmds
      \<and> mset cmds = mset (filter (\<lambda>c. c_deviceId c = d \<and> c_status c = QUEUED) (commands s))
      \<and> sorted (map c_requestedAt cmds)
      \<and> (\<forall>c\<in>set (commands (snd (pendingCommands req now s))).
            c_id c \<in> c_id ` set cmds \<longrightarrow> c_status c = DELIVERED \<and> c_deliveredAt c = Some now)
      \<and> c_id ` set cmds \<subseteq> c_id ` set (commands (snd (pendingCommands req now s)))
      \<and> fst (pendingCommands req now' (snd (pendingCommands req now s))) = Inr []
      \<and> (\<forall>s'. command_steps (snd (pendingCommands req now s)) s' \<longrightarrow>
            (\<forall>c\<in>set (commands s'). c_id c \<in> c_id ` set cmds
                \<longrightarrow> c_status c \<in> {DELIVERED, ACKED, FAILED}))"
proof -
  define q where "q = filter (\<lambda>c. c_deviceId c = d \<and> c_status c = QUEUED) (commands s)"
  define cmds where "cmds = sort_key c_requestedAt q"
  define f :: "command \<Rightarrow> command"
    where "f = (\<lambda>c. c\<lparr>c_status := DELIVERED, c_deliveredAt := Some now\<rparr>)"
  define s1 where "s1 = snd (pendingCommands req now s)"
  have res: "fst (pendingCommands req now s) = Inr cmds"
    using pendingCommands_verified [OF assms, of now s] by (simp add: Let_def cmds_def q_def)
  have set_cmds: "set cmds = set q" by (simp add: cmds_def)
  have tab: "commands s1 = updateWhere (\<lambda>c. c_id c \<in> c_id ` set cmds) f (commands s)"
  proof (cases "cmds = []")
    case True
    then show ?thesis
      using pendingCommands_verified [OF assms, of now s]
      by (simp add: s1_def Let_def cmds_def q_def updateWhere_def)
  next
    case False
    then show ?thesis
      using pendingCommands_verified [OF assms, of now s]
      by (simp add: s1_def Let_def cmds_def q_def f_def)
  qed
  have m: "mset cmds = mset q" by (simp add: cmds_def)
  have so: "sorted (map c_requestedAt cmds)" by (simp add: cmds_def)
  have del: "\<forall>c\<in>set (commands s1). c_id c \<in> c_id ` set cmds
               \<longrightarrow> c_status c = DELIVERED \<and> c_deliveredAt c = Some now"
    unfolding tab by (auto simp: updateWhere_def f_def)
  have ids: "c_id ` set (commands s1) = c_id ` set (commands s)"
    unfolding tab by (rule image_updateWhere) (simp add: f_def)
  have sub: "c_id ` set cmds \<subseteq> c_id ` set (commands s1)"
    unfolding ids set_cmds q_def by auto
  have again: "filter (\<lambda>c. c_deviceId c = d \<and> c_status c = QUEUED) (commands s1) = []"
    unfolding tab f_def
    by (rule filter_updateWhere_delivered) (auto simp: set_cmds q_def)
  have second: "fst (pendingCommands req now' s1) = Inr []"
    using pendingCommands_verified [OF assms, of now' s1] by (simp add: Let_def again)
  have inv: "delivered_ids (c_id ` set cmds) s1"
    unfolding delivered_ids_def using sub del by auto
  have later: "\<forall>s'. command_steps s1 s' \<longrightarrow>
            (\<forall>c\<in>set (commands s'). c_id c \<in> c_id ` set cmds
                \<longrightarrow> c_status c \<in> {DELIVERED, ACKED, FAILED})"
    using delivered_ids_step [OF _ inv] by (auto simp: delivered_ids_def)
  from res m so del sub second later show ?thesis
    unfolding s1_def q_def by blast
qed

theorem C2_pending_poll_witness:
  "device_token (device_request ''d1'') = VerifiedDevice ''d1''
   \<and> params_id (device_request ''d1'') = Some ''d1''
   \<and> fst (pendingCommands (device_request ''d1'') 100 example_commands)
       = Inr [mk_command ''c2'' ''d1'' QUEUED 10, mk_command ''c1'' ''d1'' QUEUED 20]
   \<and> map c_status (commands (snd (pendingCommands (device_request ''d1'') 100 example_commands)))
       = [DELIVERED, DELIVERED, ACKED, QUEUED]
   \<and> fst (pendingCommands (device_request ''d1'') 200
            (snd (pendingCommands (device_request ''d1'') 100 example_commands))) = Inr []"
proof -
  have h1: "device_token (device_request ''d1'') = VerifiedDevice ''d1''"
    and h2: "params_id (device_request ''d1'') = Some ''d1''"
    by (simp_all add: device_request_def blank_request_def)
  have first: "pendingCommands (device_request ''d1'') 100 example_commands
      = (Inr [mk_command ''c2'' ''d1'' QUEUED 10, mk_command ''c1'' ''d1'' QUEUED 20],
         empty_db\<lparr>commands :=
           [(mk_command ''c1'' ''d1'' QUEUED 20)\<lparr>c_status := DELIVERED, c_deliveredAt := Some 100\<rparr>,
            (mk_command ''c2'' ''d1'' QUEUED 10)\<lparr>c_status := DELIVERED, c_deliveredAt := Some 100\<rparr>,
            mk_command ''c3'' ''d1'' ACKED 5, mk_command ''c4'' ''d2'' QUEUED 1]\<rparr>)"
    by (simp add: pendingCommands_verified [OF h1 h2] example_commands_def mk_command_def
        updateWhere_def Let_def)
  from C2_pending_poll [OF h1 h2, of 100 example_commands 200]
  have second: "fst (pendingCommands (device_request ''d1'') 200
            (snd (pendingCommands (device_request ''d1'') 100 example_commands))) = Inr []"
    by (elim exE conjE)
  show ?thesis
  proof (intro conjI)
    show "device_token (device_request ''d1'') = VerifiedDevice ''d1''" by (rule h1)
    show "params_id (device_request ''d1'') = Some ''d1''" by (rule h2)
    show "fst (pendingCommands (device_request ''d1'') 100 example_commands)
       = Inr [mk_command ''c2'' ''d1'' QUEUED 10, mk_command ''c1'' ''d1'' QUEUED 20]"
      by (simp add: first)
    show "map c_status (commands (snd (pendingCommands (device_request ''d1'') 100 example_commands)))
       = [DELIVERED, DELIVERED, ACKED, QUEUED]"
      by (simp add: first mk_command_def)
    show "fst (pendingCommands (device_request ''d1'') 200
            (snd (pendingCommands (device_request ''d1'') 100 example_commands))) = Inr []"
      by (rule second)
  qed
qed

lemma in_updateWhere:
  "y \<in> set (updateWhere P f xs) \<Longrightarrow> (\<exists>x\<in>set xs. P x \<and> y = f x) \<or> (y \<in> set xs \<and> \<not> P y)"
  by (auto simp: updateWhere_def)

text \<open>
  C10: acknowledging imposes no precondition on the current status.  For every existing
  command of the authenticated device, whatever its status, an ack with status ACKED or
  FAILED succeeds, and the command row then has that status and \<open>ackAt\<close> set to the time
  of the ack.
\<close>

theorem C10_ack_no_status_precondition:
  assumes "device_token req = VerifiedDevice d" and "params_id req = Some d"
    and "c \<in> set (commands s)" and "c_id c = cid" and "c_deviceId c = d"
    and "b_status body = ACKED \<or> b_status body = FAILED"
  shows "\<exists>u. fst (ackCommand req cid body now s) = Inr u
      \<and> c_id u = cid \<and> c_status u = b_status body \<and> c_ackAt u = Some now
      \<and> (\<forall>c'\<in>set (commands (snd (ackCommand req cid body now s))).
            c_id c' = cid \<longrightarrow> c_status c' = b_status body \<and> c_ackAt c' = Some now)
      \<and> cid \<in> c_id ` set (commands (snd (ackCommand req cid body now s)))"
proof -
  let ?P = "\<lambda>c. c_id c = cid \<and> Some (c_deviceId c) = Some d"
  from assms(3-5) have "\<exists>x\<in>set (commands s). ?P x" by auto
  then obtain c0 where f: "find ?P (commands s) = Some c0"
    by (cases "find ?P (commands s)") (auto simp: find_None_iff)
  then have c0: "c_id c0 = cid" "c0 \<in> set (commands s)"
    by (auto simp: find_Some_iff in_set_conv_nth)
  let ?upd = "\<lambda>c. c\<lparr>c_status := b_status body, c_ackAt := Some now,
                       c_errorMsg := nonEmpty (b_errorMsg body)\<rparr>"
  have r: "fst (ackCommand req cid body now s) = Inr (?upd c0)"
    and t: "commands (snd (ackCommand req cid body now s))
            = updateWhere (\<lambda>c. c_id c = cid) ?upd (commands s)"
    using assms(1,2,6) f c0(1)
    by (simp_all add: ackCommand_def authenticateDevice_def ackCommandSchema_def Let_def)
  have "c_id ` set (commands (snd (ackCommand req cid body now s))) = c_id ` set (commands s)"
    unfolding t by (rule image_updateWhere) simp
  with c0 have "cid \<in> c_id ` set (commands (snd (ackCommand req cid body now s)))" by auto
  moreover have "\<forall>c'\<in>set (commands (snd (ackCommand req cid body now s))).
            c_id c' = cid \<longrightarrow> c_status c' = b_status body \<and> c_ackAt c' = Some now"
  proof (intro ballI impI)
    fix c'
    assume m: "c' \<in> set (commands (snd (ackCommand req cid body now s)))" and i: "c_id c' = cid"
    from m [unfolded t] have "(\<exists>x\<in>set (commands s). c_id x = cid \<and> c' = ?upd x)
        \<or> (c' \<in> set (commands s) \<and> c_id c' \<noteq> cid)"
      by (rule in_updateWhere)
    with i obtain x where "c' = ?upd x" by blast
    then show "c_status c' = b_status body \<and> c_ackAt c' = Some now" by simp
  qed
  ultimately show ?thesis using r c0(1) by simp
qed

theorem C10_ack_no_status_precondition_witness:
  "(\<exists>u. fst (ackCommand (device_request ''d1'') ''c1''
             \<lparr>b_status = ACKED, b_errorMsg = None\<rparr> 300 example_commands) = Inr u
        \<and> c_status u = ACKED \<and> c_ackAt u = Some 300)
   \<and> (\<exists>u. fst (ackCommand (device_request ''d1'') ''c3''
             \<lparr>b_status = FAILED, b_errorMsg = Some ''late''\<rparr> 300 example_commands) = Inr u
        \<and> c_status u = FAILED \<and> c_ackAt u = Some 300)
   \<and> c_status (mk_command ''c1'' ''d1'' QUEUED 20) = QUEUED
   \<and> c_status (mk_command ''c3'' ''d1'' ACKED 5) = ACKED"
proof -
  have h1: "device_token (device_request ''d1'') = VerifiedDevice ''d1''"
    and h2: "params_id (device_request ''d1'') = Some ''d1''"
    by (simp_all add: device_request_def blank_request_def)
  have m1: "mk_command ''c1'' ''d1'' QUEUED 20 \<in> set (commands example_commands)"
    and m3: "mk_command ''c3'' ''d1'' ACKED 5 \<in> set (commands example_commands)"
    by (simp_all add: example_commands_def)
  have i: "c_id (mk_command ''c1'' ''d1'' QUEUED 20) = ''c1''"
    "c_deviceId (mk_command ''c1'' ''d1'' QUEUED 20) = ''d1''"
    "c_id (mk_command ''c3'' ''d1'' ACKED 5) = ''c3''"
    "c_deviceId (mk_command ''c3'' ''d1'' ACKED 5) = ''d1''"
    "c_status (mk_command ''c1'' ''d1'' QUEUED 20) = QUEUED"
    "c_status (mk_command ''c3'' ''d1'' ACKED 5) = ACKED"
    by (simp_all add: mk_command_def)
  have a: "\<exists>u. fst (ackCommand (device_request ''d1'') ''c1''
             \<lparr>b_status = ACKED, b_errorMsg = None\<rparr> 300 example_commands) = Inr u
        \<and> c_status u = ACKED \<and> c_ackAt u = Some 300"
    using C10_ack_no_status_precondition [OF h1 h2 m1 i(1) i(2),
        of "\<lparr>b_status = ACKED, b_errorMsg = None\<rparr>" 300]
    by auto
  have b: "\<exists>u. fst (ackCommand (device_request ''d1'') ''c3''
             \<lparr>b_status = FAILED, b_errorMsg = Some ''late''\<rparr> 300 example_commands) = Inr u
        \<and> c_status u = FAILED \<and> c_ackAt u = Some 300"
    using C10_ack_no_status_precondition [OF h1 h2 m3 i(3) i(4),
        of "\<lparr>b_status = FAILED, b_errorMsg = Some ''late''\<rparr>" 300]
    by auto
  from a b i(5,6) show ?thesis by blast
qed


section \<open>Properties of the OTA device report\<close>

lemma updateWhere_pres:
  assumes "\<And>x. P (f x) = P x" and "\<And>x. P x \<Longrightarrow> Q (f x)"
  shows "\<forall>y\<in>set (updateWhere P f xs). P y \<longrightarrow> Q y"
  using assms by (auto simp: updateWhere_def)

text \<open>
  C9: the device OTA report updates whatever job the supplied jobId identifies.  Nothing
  relates the job's tenant or target to the reporting device: for every existing job
  (with its firmware package) and every authenticated, existing device, a SUCCESS report
  makes the job SUCCESS with \<open>finishedAt\<close> set and writes the job's firmware version into
  the reporting device's \<open>firmwareVersion\<close>; a FAILED report makes the job FAILED with
  \<open>finishedAt\<close> set; an IN_PROGRESS report on a SCHEDULED job makes it IN_PROGRESS with
  \<open>startedAt\<close> set.
\<close>

theorem C9_ota_report_unchecked:
  assumes "device_token req = VerifiedDevice d" and "params_id req = Some d"
    and "rb_jobId body = Some jid"
    and "find (\<lambda>j. j_id j = jid) (otaJobs s) = Some job"
    and "find (\<lambda>f. f_id f = j_firmwarePackageId job) (firmwarePackages s) = Some fw"
    and "dev \<in> set (devices s)" and "d_id dev = d"
  shows "(rb_status body = Some (JStr ''SUCCESS'') \<longrightarrow>
            (\<exists>u. fst (otaReport req body now s) = Inr u \<and> j_id u = jid
                \<and> j_status u = SUCCESS \<and> j_finishedAt u = Some now)
          \<and> (\<forall>j\<in>set (otaJobs (snd (otaReport req body now s))).
                j_id j = jid \<longrightarrow> j_status j = SUCCESS \<and> j_finishedAt j = Some now)
          \<and> (\<forall>x\<in>set (devices (snd (otaReport req body now s))).
                d_id x = d \<longrightarrow> d_firmwareVersion x = Some (f_version fw))
          \<and> d \<in> d_id ` set (devices (snd (otaReport req body now s))))
       \<and> (rb_status body = Some (JStr ''FAILED'') \<longrightarrow>
            (\<exists>u. fst (otaReport req body now s) = Inr u \<and> j_id u = jid
                \<and> j_status u = OTA_FAILED \<and> j_finishedAt u = Some now)
          \<and> (\<forall>j\<in>set (otaJobs (snd (otaReport req body now s))).
                j_id j = jid \<longrightarrow> j_status j = OTA_FAILED \<and> j_finishedAt j = Some now))
       \<and> (rb_status body = Some (JStr ''IN_PROGRESS'') \<and> j_status job = SCHEDULED \<longrightarrow>
            (\<exists>u. fst (otaReport req body now s) = Inr u \<and> j_id u = jid
                \<and> j_status u = IN_PROGRESS \<and> j_startedAt u = Some now)
          \<and> (\<forall>j\<in>set (otaJobs (snd (otaReport req body now s))).
                j_id j = jid \<longrightarrow> j_status j = IN_PROGRESS \<and> j_startedAt j = Some now))"
proof -
  note found = assms(1-4)
  from assms(4) have jid: "j_id job = jid" by (auto simp: find_Some_iff)
  from assms(6,7) have ex: "list_ex (\<lambda>x. d_id x = d) (devices s)" by (auto simp: list_ex_iff)
  show ?thesis
  proof (intro conjI impI)
    assume st: "rb_status body = Some (JStr ''SUCCESS'')"
    let ?upd = "\<lambda>j. (case rb_progress body of None \<Rightarrow> j | Some p \<Rightarrow> j\<lparr>j_progress := Some p\<rparr>)
                  \<lparr>j_status := SUCCESS, j_finishedAt := Some now\<rparr>"
    let ?fw = "\<lambda>x. x\<lparr>d_firmwareVersion := Some (f_version fw)\<rparr>"
    have r: "otaReport req body now s =
       (Inr (?upd job), s\<lparr>otaJobs := updateWhere (\<lambda>j. j_id j = jid) ?upd (otaJobs s),
              devices := updateWhere (\<lambda>x. d_id x = d) ?fw (devices s)\<rparr>)"
      using found st assms(5) ex
      by (simp add: otaReport_def authenticateDevice_def Let_def)
    show "\<exists>u. fst (otaReport req body now s) = Inr u \<and> j_id u = jid
                \<and> j_status u = SUCCESS \<and> j_finishedAt u = Some now"
      unfolding r using jid by (simp split: option.splits)
    show "\<forall>j\<in>set (otaJobs (snd (otaReport req body now s))).
                j_id j = jid \<longrightarrow> j_status j = SUCCESS \<and> j_finishedAt j = Some now"
      unfolding r by (simp, rule updateWhere_pres) (simp_all split: option.splits)
    show "\<forall>x\<in>set (devices (snd (otaReport req body now s))).
                d_id x = d \<longrightarrow> d_firmwareVersion x = Some (f_version fw)"
      unfolding r by (simp, rule updateWhere_pres) simp_all
    have "d_id ` set (updateWhere (\<lambda>x. d_id x = d) ?fw (devices s)) = d_id ` set (devices s)"
      by (rule image_updateWhere) simp
    with assms(6,7) show "d \<in> d_id ` set (devices (snd (otaReport req body now s)))"
      unfolding r by auto
  next
    assume st: "rb_status body = Some (JStr ''FAILED'')"
    let ?upd = "\<lambda>j. (case rb_progress body of None \<Rightarrow> j | Some p \<Rightarrow> j\<lparr>j_progress := Some p\<rparr>)
                  \<lparr>j_status := OTA_FAILED, j_finishedAt := Some now\<rparr>"
    have r: "otaReport req body now s =
       (Inr (?upd job), s\<lparr>otaJobs := updateWhere (\<lambda>j. j_id j = jid) ?upd (otaJobs s)\<rparr>)"
      using found st by (simp add: otaReport_def authenticateDevice_def Let_def)
    show "\<exists>u. fst (otaReport req body now s) = Inr u \<and> j_id u = jid
                \<and> j_status u = OTA_FAILED \<and> j_finishedAt u = Some now"
      unfolding r using jid by (simp split: option.splits)
    show "\<forall>j\<in>set (otaJobs (snd (otaReport req body now s))).
                j_id j = jid \<longrightarrow> j_status j = OTA_FAILED \<and> j_finishedAt j = Some now"
      unfolding r by (simp, rule updateWhere_pres) (simp_all split: option.splits)
  next
    assume "rb_status body = Some (JStr ''IN_PROGRESS'') \<and> j_status job = SCHEDULED"
    then have st: "rb_status body = Some (JStr ''IN_PROGRESS'')" and sch: "j_status job = SCHEDULED"
      by simp_all
    let ?upd = "\<lambda>j. (case rb_progress body of None \<Rightarrow> j | Some p \<Rightarrow> j\<lparr>j_progress := Some p\<rparr>)
                  \<lparr>j_status := IN_PROGRESS, j_startedAt := Some now\<rparr>"
    have r: "otaReport req body now s =
       (Inr (?upd job), s\<lparr>otaJobs := updateWhere (\<lambda>j. j_id j = jid) ?upd (otaJobs s)\<rparr>)"
      using found st sch by (simp add: otaReport_def authenticateDevice_def Let_def)
    show "\<exists>u. fst (otaReport req body now s) = Inr u \<and> j_id u = jid
                \<and> j_status u = IN_PROGRESS \<and> j_startedAt u = Some now"
      unfolding r using jid by (simp split: option.splits)
    show "\<forall>j\<in>set (otaJobs (snd (otaReport req body now s))).
                j_id j = jid \<longrightarrow> j_status j = IN_PROGRESS \<and> j_startedAt j = Some now"
      unfolding r by (simp, rule updateWhere_pres) (simp_all split: option.splits)
  qed
qed

theorem C9_ota_report_unchecked_witness:
  "j_tenantId example_job \<noteq> d_tenantId (mk_device ''dev-b'' ''tenant-b'' None ACTIVE)
   \<and> j_deviceId example_job \<noteq> Some (d_id (mk_device ''dev-b'' ''tenant-b'' None ACTIVE))
   \<and> (\<exists>u. fst (otaReport (device_request ''dev-b'') success_report 9000 example_ota) = Inr u
          \<and> j_id u = ''job-a'' \<and> j_status u = SUCCESS \<and> j_finishedAt u = Some 9000)
   \<and> map j_status (otaJobs (snd (otaReport (device_request ''dev-b'') success_report 9000 example_ota)))
        = [SUCCESS]
   \<and> map d_firmwareVersion
        (devices (snd (otaReport (device_request ''dev-b'') success_report 9000 example_ota)))
        = [None, Some ''2.0.0'']"
proof -
  have h1: "device_token (device_request ''dev-b'') = VerifiedDevice ''dev-b''"
    and h2: "params_id (device_request ''dev-b'') = Some ''dev-b''"
    by (simp_all add: device_request_def blank_request_def)
  have h3: "rb_jobId success_report = Some ''job-a''"
    and st: "rb_status success_report = Some (JStr ''SUCCESS'')"
    by (simp_all add: success_report_def)
  have h4: "find (\<lambda>j. j_id j = ''job-a'') (otaJobs example_ota) = Some example_job"
    by (simp add: example_ota_def example_job_def)
  have h5: "find (\<lambda>f. f_id f = j_firmwarePackageId example_job) (firmwarePackages example_ota)
      = Some \<lparr>f_id = ''fw1'', f_version = ''2.0.0''\<rparr>"
    by (simp add: example_ota_def example_job_def)
  have h6: "mk_device ''dev-b'' ''tenant-b'' None ACTIVE \<in> set (devices example_ota)"
    by (simp add: example_ota_def)
  have h7: "d_id (mk_device ''dev-b'' ''tenant-b'' None ACTIVE) = ''dev-b''"
    by (simp add: mk_device_def)
  have cross: "j_tenantId example_job \<noteq> d_tenantId (mk_device ''dev-b'' ''tenant-b'' None ACTIVE)"
    "j_deviceId example_job \<noteq> Some (d_id (mk_device ''dev-b'' ''tenant-b'' None ACTIVE))"
    by (simp_all add: example_job_def mk_device_def)
  have a: "\<exists>u. fst (otaReport (device_request ''dev-b'') success_report 9000 example_ota) = Inr u
          \<and> j_id u = ''job-a'' \<and> j_status u = SUCCESS \<and> j_finishedAt u = Some 9000"
    by (rule C9_ota_report_unchecked [OF h1 h2 h3 h4 h5 h6 h7, of 9000,
          THEN conjunct1, THEN mp, OF st, THEN conjunct1])
  have r: "snd (otaReport (device_request ''dev-b'') success_report 9000 example_ota)
     = example_ota\<lparr>otaJobs := [example_job\<lparr>j_status := SUCCESS, j_finishedAt := Some 9000\<rparr>],
         devices := [mk_device ''dev-a'' ''tenant-a'' None ACTIVE,
                     (mk_device ''dev-b'' ''tenant-b'' None ACTIVE)\<lparr>d_firmwareVersion := Some ''2.0.0''\<rparr>]\<rparr>"
    using h1 h2
    by (simp add: otaReport_def authenticateDevice_def Let_def example_ota_def updateWhere_def
        example_job_def mk_device_def success_report_def)
  have b: "map j_status (otaJobs (snd (otaReport (device_request ''dev-b'') success_report 9000 example_ota)))
        = [SUCCESS]"
    unfolding r by simp
  have c: "map d_firmwareVersion
        (devices (snd (otaReport (device_request ''dev-b'') success_report 9000 example_ota)))
        = [None, Some ''2.0.0'']"
    unfolding r by (simp add: mk_device_def)
  from cross a b c show ?thesis by blast
qed


section \<open>Properties of the telemetry ingestor\<close>

lemma sites_writeAuditLog [simp]: "sites (writeAuditLog a b c d e f s) = sites s"
  by (simp add: writeAuditLog_def)

lemma twins_writeAuditLog [simp]: "twins (writeAuditLog a b c d e f s) = twins s"
  by (simp add: writeAuditLog_def)

lemma reconcileSiteGeo_locked:
  "s_locationLock site \<Longrightarrow> sites (reconcileSiteGeo dev site g now s) = sites s"
  by (simp add: reconcileSiteGeo_def Let_def split: option.splits)

lemma twins_reconcileSiteGeo [simp]: "twins (reconcileSiteGeo dev site g now s) = twins s"
  by (simp add: reconcileSiteGeo_def Let_def split: option.splits)

text \<open>
  C3: for every telemetry ingest that carries a geo and whose device is bound to a site
  with \<open>locationLock\<close> set, the Site table is the same after the ingest; in particular the
  site's \<open>lat\<close>, \<open>lon\<close>, \<open>locationSource\<close> and \<open>locationAccuracyM\<close> are unchanged.
\<close>

theorem C3_location_lock:
  assumes "find (\<lambda>d. d_id d = tb_deviceId body) (devices s) = Some dev"
    and "d_siteId dev = Some sid"
    and "find (\<lambda>x. s_id x = sid) (sites s) = Some site"
    and "s_locationLock site"
    and "tb_geo body = Some g"
  shows "sites (snd (ingestTelemetry uuid sn req body newId now s)) = sites s
       \<and> (\<exists>site'. find (\<lambda>x. s_id x = sid) (sites (snd (ingestTelemetry uuid sn req body newId now s)))
                     = Some site'
            \<and> s_lat site' = s_lat site \<and> s_lon site' = s_lon site
            \<and> s_locationSource site' = s_locationSource site
            \<and> s_locationAccuracyM site' = s_locationAccuracyM site)"
proof -
  have "sites (snd (ingestTelemetry uuid sn req body newId now s)) = sites s"
    using assms
    by (simp add: ingestTelemetry_def Let_def reconcileSiteGeo_locked split: sum.splits)
  with assms(3) show ?thesis by simp
qed

theorem C3_location_lock_witness:
  "s_locationLock example_site
   \<and> tb_geo example_reading \<noteq> None
   \<and> error_code (fst (ingestTelemetry uuidV4 (\<lambda>x. None) (device_request example_device) example_reading
        ''tel-1'' 8000 example_fleet)) = None
   \<and> sites (snd (ingestTelemetry uuidV4 (\<lambda>x. None) (device_request example_device) example_reading
        ''tel-1'' 8000 example_fleet)) = [example_site]"
proof -
  have h1: "find (\<lambda>d. d_id d = tb_deviceId example_reading) (devices example_fleet)
      = Some (mk_device example_device ''tenant-a'' (Some ''site-1'') ACTIVE)"
    by (simp add: example_reading_def example_fleet_def mk_device_def)
  have h2: "d_siteId (mk_device example_device ''tenant-a'' (Some ''site-1'') ACTIVE) = Some ''site-1''"
    by (simp add: mk_device_def)
  have h3: "find (\<lambda>x. s_id x = ''site-1'') (sites example_fleet) = Some example_site"
    by (simp add: example_fleet_def example_site_def)
  have h4: "s_locationLock example_site" by (simp add: example_site_def)
  have h5: "tb_geo example_reading = Some \<lparr>g_lat = 385 / 10, g_lon = 245 / 10,
      g_accuracyM = Some 50, g_source = EDGE_GNSS\<rparr>"
    by (simp add: example_reading_def)
  have a: "sites (snd (ingestTelemetry uuidV4 (\<lambda>x. None) (device_request example_device) example_reading
        ''tel-1'' 8000 example_fleet)) = sites example_fleet"
    by (rule C3_location_lock [OF h1 h2 h3 h4 h5, THEN conjunct1])
  have b: "error_code (fst (ingestTelemetry uuidV4 (\<lambda>x. None) (device_request example_device) example_reading
        ''tel-1'' 8000 example_fleet)) = None"
    using h1
    by (simp add: ingestTelemetry_def authenticateDevice_def device_request_def
        blank_request_def Let_def telemetrySchema_def example_reading_def
        uuidV4_def uuidChar_def hexDigit_def example_device_def
        example_fleet_def empty_db_def)
  from a b h4 h5 show ?thesis by (simp add: example_fleet_def)
qed

lemma lastKey_inject [simp]: "lastKey a = lastKey b \<longleftrightarrow> a = b"
  by (simp add: lastKey_def)

lemma lastKey_distinguished [simp]:
  "lastKey k \<noteq> ''isOnline''" "lastKey k \<noteq> ''lastRssi''" "lastKey k \<noteq> ''lastTankTempC''"
  "lastKey k \<noteq> ''lastAmbientTempC''" "lastKey k \<noteq> ''heaterOn''" "lastKey k \<noteq> ''lastPowerW''"
  "lastKey k \<noteq> ''healthScore''" "lastKey k \<noteq> ''lastGeoLat''" "lastKey k \<noteq> ''lastGeoLon''"
  "lastKey k \<noteq> ''lastGeoSource''"
  by (simp_all add: lastKey_def)

lemma assignLast_other [simp]: "k \<noteq> field \<Longrightarrow> assignLast field metric m st k = st k"
  by (simp add: assignLast_def)

lemma mirrorMetrics_other:
  "k \<notin> fst ` set m \<Longrightarrow> mirrorMetrics m st (lastKey k) = st (lastKey k)"
  by (induction m st rule: mirrorMetrics.induct) auto

lemma mirrorMetrics_entry:
  "distinct (map fst m) \<Longrightarrow> (k, v) \<in> set m \<Longrightarrow> mirrorMetrics m st (lastKey k) = Some v"
proof (induction m st rule: mirrorMetrics.induct)
  case (1 st)
  then show ?case by simp
next
  case (2 k' v' rest st)
  show ?case
  proof (cases "(k, v) = (k', v')")
    case True
    with "2.prems" have "k \<notin> fst ` set rest" by auto
    with True show ?thesis by (simp add: mirrorMetrics_other)
  next
    case False
    with "2.prems" have "distinct (map fst rest)" "(k, v) \<in> set rest" by auto
    then have "mirrorMetrics rest (st(lastKey k' \<mapsto> v')) (lastKey k) = Some v"
      by (rule "2.IH")
    then show ?thesis by simp
  qed
qed

lemma computeDerivedState_isOnline:
  "computeDerivedState sn m g st ''isOnline'' = Some (JBool True)"
  by (cases g) (simp_all add: computeDerivedState_def Let_def)

lemma healthScore_eq: "healthScore sn m = max 0 (100 - healthDeduction sn m)"
proof -
  have b: "\<And>k b. (obj_get m k \<noteq> None \<and> js_lt sn (obj_get m k) (Some (JNum b))) = metricBelow sn m k b"
    by (simp add: metricBelow_def split: option.splits)
  have a: "\<And>k b. (obj_get m k \<noteq> None \<and> js_gt sn (obj_get m k) (Some (JNum b))) = metricAbove sn m k b"
    by (simp add: metricAbove_def js_gt_def split: option.splits)
  show ?thesis
    unfolding healthScore_def Let_def a b healthDeduction_def by simp
qed

lemma computeDerivedState_healthScore:
  "computeDerivedState sn m g st ''healthScore''
     = Some (JNum (max 0 (100 - healthDeduction sn m)))"
  by (cases g) (simp_all add: computeDerivedState_def Let_def healthScore_eq)

lemma computeDerivedState_mirror:
  assumes "distinct (map fst m)" and "(k, v) \<in> set m"
  shows "computeDerivedState sn m g st (lastKey k) = Some v"
  using mirrorMetrics_entry [OF assms, of st]
  by (cases g) (simp_all add: computeDerivedState_def Let_def)

lemma find_updateWhere_same:
  assumes "\<And>x. P (f x) = P x"
  shows "find P (updateWhere P f xs) = map_option f (find P xs)"
  using assms by (induction xs) (auto simp: updateWhere_def)

lemma find_append_first:
  "find P (xs @ ys) = (case find P xs of None \<Rightarrow> find P ys | Some x \<Rightarrow> Some x)"
  by (induction xs) auto

lemma find_upsertTwin:
  "\<exists>tw. find (\<lambda>t. tw_deviceId t = d) (upsertTwin d ts st tws) = Some tw
        \<and> tw_derivedState tw = st \<and> tw_lastTs tw = Some ts"
proof (cases "list_ex (\<lambda>t. tw_deviceId t = d) tws")
  case True
  then obtain t0 where "find (\<lambda>t. tw_deviceId t = d) tws = Some t0"
    by (cases "find (\<lambda>t. tw_deviceId t = d) tws") (auto simp: find_None_iff list_ex_iff)
  with True show ?thesis
    by (simp add: upsertTwin_def find_updateWhere_same)
next
  case False
  then have "find (\<lambda>t. tw_deviceId t = d) tws = None"
    by (auto simp: find_None_iff list_ex_iff)
  with False show ?thesis by (simp add: upsertTwin_def find_append_first)
qed

lemma ingestTelemetry_ok:
  assumes "device_token req = VerifiedDevice (tb_deviceId body)"
    and "telemetrySchema uuid body"
    and "find (\<lambda>d. d_id d = tb_deviceId body) (devices s) = Some dev"
    and "\<not> list_ex (\<lambda>t. t_id t = newId) (telemetryTable s)"
  shows "(\<exists>resp. fst (ingestTelemetry uuid sn req body newId now s) = Inr resp)
     \<and> twins (snd (ingestTelemetry uuid sn req body newId now s))
        = upsertTwin (tb_deviceId body) (tb_ts body)
            (computeDerivedState sn (tb_metrics body) (tb_geo body)
               (case find (\<lambda>t. tw_deviceId t = tb_deviceId body) (twins s) of
                  None \<Rightarrow> Map.empty | Some t \<Rightarrow> tw_derivedState t))
            (twins s)"
  using assms
  by (simp add: ingestTelemetry_def authenticateDevice_def Let_def split: option.splits)

text \<open>
  C5: for every telemetry ingest that is accepted (the device is authenticated as the
  payload's device and exists, the body passes the schema, with its uuid check of the
  device id, the generated row id is new;
  the keys of the metrics object are distinct), the request succeeds and the device's
  twin then has \<open>healthScore = max 0 (100 - d)\<close>, where \<open>d\<close> adds 20 if \<open>rssiDbm\<close> is
  present and below -100, 30 if \<open>batteryPct\<close> is present and below 20, and 20 if
  \<open>tankTempC\<close> is present and above 85; every incoming metric \<open>k = v\<close> is mirrored as
  \<open>last_k = v\<close>; and \<open>isOnline\<close> is true.
\<close>

theorem C5_twin_health_score:
  assumes "device_token req = VerifiedDevice (tb_deviceId body)"
    and "telemetrySchema uuid body"
    and "find (\<lambda>d. d_id d = tb_deviceId body) (devices s) = Some dev"
    and "\<not> list_ex (\<lambda>t. t_id t = newId) (telemetryTable s)"
    and "distinct (map fst (tb_metrics body))"
  shows "\<exists>resp tw. fst (ingestTelemetry uuid sn req body newId now s) = Inr resp
      \<and> find (\<lambda>t. tw_deviceId t = tb_deviceId body)
            (twins (snd (ingestTelemetry uuid sn req body newId now s))) = Some tw
      \<and> tw_derivedState tw ''healthScore''
          = Some (JNum (max 0 (100 - healthDeduction sn (tb_metrics body))))
      \<and> (\<forall>k v. (k, v) \<in> set (tb_metrics body) \<longrightarrow> tw_derivedState tw (''last_'' @ k) = Some v)
      \<and> tw_derivedState tw ''isOnline'' = Some (JBool True)"
proof -
  define st where "st = computeDerivedState sn (tb_metrics body) (tb_geo body)
               (case find (\<lambda>t. tw_deviceId t = tb_deviceId body) (twins s) of
                  None \<Rightarrow> Map.empty | Some t \<Rightarrow> tw_derivedState t)"
  from ingestTelemetry_ok [OF assms(1-4), where sn = sn and now = now]
  obtain resp where r: "fst (ingestTelemetry uuid sn req body newId now s) = Inr resp"
    and t: "twins (snd (ingestTelemetry uuid sn req body newId now s))
        = upsertTwin (tb_deviceId body) (tb_ts body) st (twins s)"
    unfolding st_def by blast
  from find_upsertTwin [of "tb_deviceId body" "tb_ts body" st "twins s"]
  obtain tw where f: "find (\<lambda>t. tw_deviceId t = tb_deviceId body)
        (upsertTwin (tb_deviceId body) (tb_ts body) st (twins s)) = Some tw"
    and d: "tw_derivedState tw = st" by blast
  have h: "tw_derivedState tw ''healthScore''
          = Some (JNum (max 0 (100 - healthDeduction sn (tb_metrics body))))"
    unfolding d st_def by (rule computeDerivedState_healthScore)
  have o: "tw_derivedState tw ''isOnline'' = Some (JBool True)"
    unfolding d st_def by (rule computeDerivedState_isOnline)
  have m: "\<forall>k v. (k, v) \<in> set (tb_metrics body) \<longrightarrow> tw_derivedState tw (''last_'' @ k) = Some v"
    unfolding d st_def lastKey_def [symmetric]
    using computeDerivedState_mirror [OF assms(5)] by blast
  from r f h m o show ?thesis unfolding t by blast
qed

theorem C5_twin_health_score_witness:
  "distinct (map fst (tb_metrics example_reading))
   \<and> telemetrySchema uuidV4 example_reading
   \<and> healthDeduction (\<lambda>x. None) (tb_metrics example_reading) = 40
   \<and> (\<exists>resp tw. fst (ingestTelemetry uuidV4 (\<lambda>x. None) (device_request example_device) example_reading
                       ''tel-1'' 8000 example_fleet) = Inr resp
        \<and> find (\<lambda>t. tw_deviceId t = example_device)
             (twins (snd (ingestTelemetry uuidV4 (\<lambda>x. None) (device_request example_device) example_reading
                       ''tel-1'' 8000 example_fleet))) = Some tw
        \<and> tw_derivedState tw ''healthScore'' = Some (JNum 60)
        \<and> tw_derivedState tw ''last_tankTempC'' = Some (JNum 90)
        \<and> tw_derivedState tw ''last_heaterOn'' = Some (JBool True)
        \<and> tw_derivedState tw ''isOnline'' = Some (JBool True))"
proof -
  have h1: "device_token (device_request example_device) = VerifiedDevice (tb_deviceId example_reading)"
    by (simp add: device_request_def blank_request_def example_reading_def)
  have h2: "telemetrySchema uuidV4 example_reading"
    by (simp add: telemetrySchema_def example_reading_def uuidV4_def uuidChar_def hexDigit_def
        example_device_def)
  have h3: "find (\<lambda>d. d_id d = tb_deviceId example_reading) (devices example_fleet)
      = Some (mk_device example_device ''tenant-a'' (Some ''site-1'') ACTIVE)"
    by (simp add: example_reading_def example_fleet_def mk_device_def)
  have h4: "\<not> list_ex (\<lambda>t. t_id t = ''tel-1'') (telemetryTable example_fleet)"
    by (simp add: example_fleet_def empty_db_def)
  have h5: "distinct (map fst (tb_metrics example_reading))"
    by (simp add: example_reading_def)
  have hd: "healthDeduction (\<lambda>x. None) (tb_metrics example_reading) = 40"
    by (simp add: healthDeduction_def metricBelow_def metricAbove_def obj_get_def
        example_reading_def)
  have e: "(''tankTempC'', JNum 90) \<in> set (tb_metrics example_reading)"
    "(''heaterOn'', JBool True) \<in> set (tb_metrics example_reading)"
    "tb_deviceId example_reading = example_device"
    by (simp_all add: example_reading_def)
  from C5_twin_health_score [OF h1 h2 h3 h4 h5, where sn = "\<lambda>x. None" and now = 8000]
  obtain resp tw where
    "fst (ingestTelemetry uuidV4 (\<lambda>x. None) (device_request example_device) example_reading
                       ''tel-1'' 8000 example_fleet) = Inr resp"
    "find (\<lambda>t. tw_deviceId t = example_device)
             (twins (snd (ingestTelemetry uuidV4 (\<lambda>x. None) (device_request example_device) example_reading
                       ''tel-1'' 8000 example_fleet))) = Some tw"
    "tw_derivedState tw ''healthScore'' = Some (JNum 60)"
    "tw_derivedState tw (''last_'' @ ''tankTempC'') = Some (JNum 90)"
    "tw_derivedState tw (''last_'' @ ''heaterOn'') = Some (JBool True)"
    "tw_derivedState tw ''isOnline'' = Some (JBool True)"
    unfolding hd e(3) using e(1,2) by auto
  then have "\<exists>resp tw. fst (ingestTelemetry uuidV4 (\<lambda>x. None) (device_request example_device) example_reading
                       ''tel-1'' 8000 example_fleet) = Inr resp
        \<and> find (\<lambda>t. tw_deviceId t = example_device)
             (twins (snd (ingestTelemetry uuidV4 (\<lambda>x. None) (device_request example_device) example_reading
                       ''tel-1'' 8000 example_fleet))) = Some tw
        \<and> tw_derivedState tw ''healthScore'' = Some (JNum 60)
        \<and> tw_derivedState tw ''last_tankTempC'' = Some (JNum 90)
        \<and> tw_derivedState tw ''last_heaterOn'' = Some (JBool True)
        \<and> tw_derivedState tw ''isOnline'' = Some (JBool True)"
    by auto
  with h5 h2 hd show ?thesis by blast
qed


section \<open>Properties of the notification dispatcher\<close>

lemma n_id_outcomeUpdate [simp]: "n_id (outcomeUpdate out now e) = n_id e"
  by (cases out) simp_all














section \<open>Properties of the alert evaluator\<close>

lemma alertEvents_dispatchLoop [simp]:
  "alertEvents (snd (snd (dispatchLoop ids now tid aid sev chs n s))) = alertEvents s"
  by (induction chs arbitrary: n s) auto

lemma alertEvents_dispatch [simp]:
  "alertEvents (snd (snd (dispatchAlertNotifications ids now tid aid sev n s))) = alertEvents s"
  by (simp add: dispatchAlertNotifications_def)

lemma devices_dispatchLoop [simp]:
  "devices (snd (snd (dispatchLoop ids now tid aid sev chs n s))) = devices s"
  by (induction chs arbitrary: n s) auto

lemma twins_dispatchLoop [simp]:
  "twins (snd (snd (dispatchLoop ids now tid aid sev chs n s))) = twins s"
  by (induction chs arbitrary: n s) auto

lemma next_dispatchLoop: "n \<le> fst (snd (dispatchLoop ids now tid aid sev chs n s))"
  by (induction ids now tid aid sev chs n s rule: dispatchLoop.induct) (auto intro: Suc_leD)

lemma evaluatePair_frame:
  "devices (sw_db (evaluatePair cfg sn others ids now rule dev sw)) = devices (sw_db sw)"
  "twins (sw_db (evaluatePair cfg sn others ids now rule dev sw)) = twins (sw_db sw)"
  by (simp_all add: evaluatePair_def Let_def dispatchAlertNotifications_def
        split: predicate_outcome.splits alert_rule_type.splits)

lemma evaluatePair_events:
  "(alertEvents (sw_db (evaluatePair cfg sn others ids now rule dev sw)) = alertEvents (sw_db sw)
      \<and> sw_next sw \<le> sw_next (evaluatePair cfg sn others ids now rule dev sw))
   \<or> (\<exists>e. alertEvents (sw_db (evaluatePair cfg sn others ids now rule dev sw))
            = alertEvents (sw_db sw) @ [e]
          \<and> ae_dedupeKey e = Some (dedupeKeyOf dev rule) \<and> ae_id e = ids (sw_next sw)
          \<and> sw_next sw < sw_next (evaluatePair cfg sn others ids now rule dev sw))"
  using next_dispatchLoop [of "Suc (sw_next sw)"]
  by (simp add: evaluatePair_def Let_def dispatchAlertNotifications_def Suc_le_eq
        split: predicate_outcome.splits alert_rule_type.splits)

lemma sweepInv_pair:
  assumes "sweepInv ids s sw"
  shows "sweepInv ids s (evaluatePair cfg sn others ids now rule dev sw)"
proof -
  let ?sw' = "evaluatePair cfg sn others ids now rule dev sw"
  from assms obtain new where new: "alertEvents (sw_db sw) = alertEvents s @ new"
    and idsI: "\<forall>e \<in> set (alertEvents (sw_db sw)).
            ae_id e \<in> ae_id ` set (alertEvents s) \<union> ids ` {..< sw_next sw}"
    and fr: "devices (sw_db sw) = devices s" "twins (sw_db sw) = twins s"
    by (auto simp: sweepInv_def)
  have fr': "devices (sw_db ?sw') = devices s" "twins (sw_db ?sw') = twins s"
    using fr by (simp_all add: evaluatePair_frame)
  from evaluatePair_events [of cfg sn others ids now rule dev sw]
  show ?thesis
  proof (elim disjE conjE exE)
    assume a: "alertEvents (sw_db ?sw') = alertEvents (sw_db sw)" "sw_next sw \<le> sw_next ?sw'"
    have "\<forall>e \<in> set (alertEvents (sw_db ?sw')).
            ae_id e \<in> ae_id ` set (alertEvents s) \<union> ids ` {..< sw_next ?sw'}"
    proof
      fix e assume "e \<in> set (alertEvents (sw_db ?sw'))"
      with a(1) idsI have "ae_id e \<in> ae_id ` set (alertEvents s) \<union> ids ` {..< sw_next sw}"
        by simp
      moreover have "ids ` {..< sw_next sw} \<subseteq> ids ` {..< sw_next ?sw'}"
        using a(2) by (intro image_mono) auto
      ultimately show "ae_id e \<in> ae_id ` set (alertEvents s) \<union> ids ` {..< sw_next ?sw'}"
        by blast
    qed
    with a(1) new fr' show ?thesis unfolding sweepInv_def by simp
  next
    fix e
    assume a: "alertEvents (sw_db ?sw') = alertEvents (sw_db sw) @ [e]"
      "ae_id e = ids (sw_next sw)" "sw_next sw < sw_next ?sw'"
    have "\<forall>x \<in> set (alertEvents (sw_db ?sw')).
            ae_id x \<in> ae_id ` set (alertEvents s) \<union> ids ` {..< sw_next ?sw'}"
    proof
      fix x assume x: "x \<in> set (alertEvents (sw_db ?sw'))"
      have sub: "ids ` {..< sw_next sw} \<subseteq> ids ` {..< sw_next ?sw'}"
        using a(3) by (intro image_mono) auto
      from x a(1) have "x = e \<or> x \<in> set (alertEvents (sw_db sw))" by auto
      then show "ae_id x \<in> ae_id ` set (alertEvents s) \<union> ids ` {..< sw_next ?sw'}"
      proof
        assume "x = e"
        with a(2,3) show ?thesis by simp
      next
        assume "x \<in> set (alertEvents (sw_db sw))"
        with idsI sub show ?thesis by blast
      qed
    qed
    moreover have "\<exists>new'. alertEvents (sw_db ?sw') = alertEvents s @ new'"
      using a(1) new by simp
    ultimately show ?thesis using fr' unfolding sweepInv_def by simp
  qed
qed

lemma keyed_pair:
  assumes "dedupeKeyOf dev rule \<noteq> K"
  shows "filter (\<lambda>e. ae_dedupeKey e = Some K)
           (alertEvents (sw_db (evaluatePair cfg sn others ids now rule dev sw)))
         = filter (\<lambda>e. ae_dedupeKey e = Some K) (alertEvents (sw_db sw))"
  using evaluatePair_events [of cfg sn others ids now rule dev sw] assms by auto

lemma sweepInv_inner:
  "sweepInv ids s sw \<Longrightarrow> sweepInv ids s (fold (evaluatePair cfg sn others ids now rule) ds sw)"
  by (induction ds arbitrary: sw) (simp_all add: sweepInv_pair)

lemma keyed_inner:
  "\<forall>d \<in> set ds. dedupeKeyOf d rule \<noteq> K \<Longrightarrow>
   filter (\<lambda>e. ae_dedupeKey e = Some K)
     (alertEvents (sw_db (fold (evaluatePair cfg sn others ids now rule) ds sw)))
   = filter (\<lambda>e. ae_dedupeKey e = Some K) (alertEvents (sw_db sw))"
  by (induction ds arbitrary: sw) (simp_all add: keyed_pair)

lemma devicesOfRule_inv: "sweepInv ids s sw \<Longrightarrow> devicesOfRule rule (sw_db sw) = devicesOfRule rule s"
  by (simp add: sweepInv_def devicesOfRule_def)

lemma sweepInv_outer:
  "sweepInv ids s sw \<Longrightarrow>
   sweepInv ids s
     (fold (\<lambda>rule sw. fold (evaluatePair cfg sn others ids now rule) (devicesOfRule rule (sw_db sw)) sw)
        rs sw)"
  by (induction rs arbitrary: sw) (simp_all add: sweepInv_inner)

lemma keyed_outer:
  "sweepInv ids s sw \<Longrightarrow> \<forall>r \<in> set rs. \<forall>d \<in> set (devicesOfRule r s). dedupeKeyOf d r \<noteq> K \<Longrightarrow>
   filter (\<lambda>e. ae_dedupeKey e = Some K)
     (alertEvents (sw_db
        (fold (\<lambda>rule sw. fold (evaluatePair cfg sn others ids now rule) (devicesOfRule rule (sw_db sw)) sw)
           rs sw)))
   = filter (\<lambda>e. ae_dedupeKey e = Some K) (alertEvents (sw_db sw))"
proof (induction rs arbitrary: sw)
  case Nil
  show ?case by simp
next
  case (Cons r rs)
  let ?sw1 = "fold (evaluatePair cfg sn others ids now r) (devicesOfRule r (sw_db sw)) sw"
  have i1: "sweepInv ids s ?sw1" using Cons.prems(1) by (rule sweepInv_inner)
  have d: "devicesOfRule r (sw_db sw) = devicesOfRule r s"
    using Cons.prems(1) by (rule devicesOfRule_inv)
  have k1: "filter (\<lambda>e. ae_dedupeKey e = Some K) (alertEvents (sw_db ?sw1))
      = filter (\<lambda>e. ae_dedupeKey e = Some K) (alertEvents (sw_db sw))"
    using Cons.prems(2) by (intro keyed_inner) (simp add: d)
  have "\<forall>r \<in> set rs. \<forall>d \<in> set (devicesOfRule r s). dedupeKeyOf d r \<noteq> K"
    using Cons.prems(2) by simp
  from Cons.IH [OF i1 this] k1 show ?case by simp
qed

lemma colon_split:
  "c \<notin> set a \<Longrightarrow> c \<notin> set b \<Longrightarrow> a @ c # x = b @ c # y \<Longrightarrow> a = b \<and> x = y"
proof (induction a arbitrary: b)
  case Nil
  then show ?case by (cases b) auto
next
  case (Cons a0 as)
  then show ?case by (cases b) auto
qed

lemma dedupeKeyOf_inj:
  "CHR '':'' \<notin> set (d_id d1) \<Longrightarrow> CHR '':'' \<notin> set (d_id d2) \<Longrightarrow>
   dedupeKeyOf d1 r1 = dedupeKeyOf d2 r2 \<Longrightarrow> d_id d1 = d_id d2 \<and> r_id r1 = r_id r2"
  using colon_split [of "CHR '':''" "d_id d1" "d_id d2" "r_id r1" "r_id r2"]
  by (simp add: dedupeKeyOf_def)

lemma evaluatePair_over_temp:
  assumes "r_type rule = OVER_TEMP"
    and "\<not> list_ex (\<lambda>e. ae_dedupeKey e = Some (dedupeKeyOf dev rule)) (alertEvents (sw_db sw))"
    and "\<not> list_ex (\<lambda>e. ae_id e = ids (sw_next sw)) (alertEvents (sw_db sw))"
  shows "alertEvents (sw_db (evaluatePair cfg sn others ids now rule dev sw))
      = alertEvents (sw_db sw) @
        (if truthy (lastTankTempC dev (sw_db sw))
            \<and> js_gt sn (lastTankTempC dev (sw_db sw)) (overTempThreshold cfg rule)
         then [\<lparr>ae_id = ids (sw_next sw), ae_tenantId = r_tenantId rule, ae_deviceId = d_id dev,
                 ae_ruleId = r_id rule, ae_severity = r_severity rule, ae_status = OPEN,
                 ae_openedAt = now,
                 ae_details = [(''tankTempC'', lastTankTempC dev (sw_db sw)),
                               (''thresholdC'', overTempThreshold cfg rule)],
                 ae_dedupeKey = Some (dedupeKeyOf dev rule)\<rparr>]
         else [])"
proof -
  have open_none: "\<not> list_ex (\<lambda>e. ae_dedupeKey e = Some (dedupeKeyOf dev rule)
                          \<and> (ae_status e = OPEN \<or> ae_status e = ACKNOWLEDGED)) (alertEvents (sw_db sw))"
    using assms(2) by (auto simp: list_ex_iff)
  have fresh: "\<not> list_ex (\<lambda>e. ae_id e = ids (sw_next sw) \<or> ae_dedupeKey e = Some (dedupeKeyOf dev rule))
                  (alertEvents (sw_db sw))"
    using assms(2,3) by (auto simp: list_ex_iff)
  show ?thesis
    using assms(1) open_none fresh
    by (simp add: evaluatePair_def Let_def overTempPredicate_def)
qed

lemma lastTankTempC_inv: "sweepInv ids s sw \<Longrightarrow> lastTankTempC dev (sw_db sw) = lastTankTempC dev s"
  by (simp add: sweepInv_def lastTankTempC_def)

lemma sweepInv_fresh:
  assumes "sweepInv ids s sw" and "inj ids"
    and "\<forall>n. \<not> list_ex (\<lambda>e. ae_id e = ids n) (alertEvents s)"
  shows "\<not> list_ex (\<lambda>e. ae_id e = ids (sw_next sw)) (alertEvents (sw_db sw))"
proof
  assume "list_ex (\<lambda>e. ae_id e = ids (sw_next sw)) (alertEvents (sw_db sw))"
  then obtain e where e: "e \<in> set (alertEvents (sw_db sw))" "ae_id e = ids (sw_next sw)"
    by (auto simp: list_ex_iff)
  from assms(1) have "\<forall>e \<in> set (alertEvents (sw_db sw)).
            ae_id e \<in> ae_id ` set (alertEvents s) \<union> ids ` {..< sw_next sw}"
    by (simp add: sweepInv_def)
  with e(1) have "ae_id e \<in> ae_id ` set (alertEvents s) \<union> ids ` {..< sw_next sw}"
    by blast
  with e(2) have "ids (sw_next sw) \<in> ae_id ` set (alertEvents s) \<union> ids ` {..< sw_next sw}"
    by simp
  then show False
  proof
    assume "ids (sw_next sw) \<in> ae_id ` set (alertEvents s)"
    then obtain x where "x \<in> set (alertEvents s)" "ae_id x = ids (sw_next sw)" by auto
    then have "list_ex (\<lambda>e. ae_id e = ids (sw_next sw)) (alertEvents s)"
      unfolding list_ex_iff by blast
    with assms(3) show False by blast
  next
    assume "ids (sw_next sw) \<in> ids ` {..< sw_next sw}"
    then obtain k where "k < sw_next sw" "ids k = ids (sw_next sw)" by auto
    with assms(2) show False by (auto dest: injD)
  qed
qed

lemma sweepInv_start: "sweepInv ids s \<lparr>sw_db = s, sw_next = 0, sw_created = 0\<rparr>"
  by (simp add: sweepInv_def)

text \<open>
  C8, amended: in a sweep over a store whose rule ids and device ids are unique and whose
  device ids contain no colon, with fresh generated identifiers, for every enabled
  OVER_TEMP rule and every ACTIVE or INSTALLED device of its tenant for which no
  AlertEvent with the dedupe key \<open><deviceId>:<ruleId>\<close> exists before the sweep, the sweep
  appends to the AlertEvent table one event with that key, OPEN and with the rule's
  severity, if the twin's \<open>derivedState.lastTankTempC\<close> is truthy (defined, not null, not
  0, not empty) and strictly greater than the threshold, and no event with that key
  otherwise; the threshold is the rule's \<open>thresholdC\<close> when that is truthy (in particular
  not 0) and the configured default otherwise.  For a numeric temperature \<open>t\<close> and
  threshold \<open>c\<close> the condition is \<open>t \<noteq> 0 \<and> c < t\<close>: a value equal to the threshold does not
  trigger.
\<close>

theorem C8_over_temp_predicate:
  assumes rule: "rule \<in> set (alertRules s)" "r_enabled rule" "r_type rule = OVER_TEMP"
    and dev: "dev \<in> set (devices s)" "d_tenantId dev = r_tenantId rule"
      "d_status dev = ACTIVE \<or> d_status dev = INSTALLED"
    and nokey: "\<not> list_ex (\<lambda>e. ae_dedupeKey e = Some (dedupeKeyOf dev rule)) (alertEvents s)"
    and drules: "distinct (map r_id (alertRules s))"
    and ddevs: "distinct (map d_id (devices s))"
    and colon': "list_all (\<lambda>d. CHR '':'' \<notin> set (d_id d)) (devices s)"
    and inj: "inj ids"
    and fresh: "\<forall>n. \<not> list_ex (\<lambda>e. ae_id e = ids n) (alertEvents s)"
  shows "(\<exists>new k. alertEvents (snd (evaluateAlerts cfg sn others ids now s)) = alertEvents s @ new
      \<and> filter (\<lambda>e. ae_dedupeKey e = Some (dedupeKeyOf dev rule)) new
        = (if truthy (lastTankTempC dev s)
              \<and> js_gt sn (lastTankTempC dev s) (overTempThreshold cfg rule)
           then [\<lparr>ae_id = ids k, ae_tenantId = r_tenantId rule, ae_deviceId = d_id dev,
                   ae_ruleId = r_id rule, ae_severity = r_severity rule, ae_status = OPEN,
                   ae_openedAt = now,
                   ae_details = [(''tankTempC'', lastTankTempC dev s),
                                 (''thresholdC'', overTempThreshold cfg rule)],
                   ae_dedupeKey = Some (dedupeKeyOf dev rule)\<rparr>]
           else []))
    \<and> overTempThreshold cfg rule
        = (if truthy (r_params rule ''thresholdC'') then r_params rule ''thresholdC''
           else Some (JNum (overTempThresholdC cfg)))
    \<and> (\<forall>t c. lastTankTempC dev s = Some (JNum t) \<and> overTempThreshold cfg rule = Some (JNum c)
          \<longrightarrow> (truthy (lastTankTempC dev s)
                 \<and> js_gt sn (lastTankTempC dev s) (overTempThreshold cfg rule))
              = (t \<noteq> 0 \<and> c < t))"
proof (intro conjI allI impI)
  show "overTempThreshold cfg rule
        = (if truthy (r_params rule ''thresholdC'') then r_params rule ''thresholdC''
           else Some (JNum (overTempThresholdC cfg)))"
    by (simp add: overTempThreshold_def js_or_def)
next
  fix t c
  assume "lastTankTempC dev s = Some (JNum t) \<and> overTempThreshold cfg rule = Some (JNum c)"
  then show "(truthy (lastTankTempC dev s)
                 \<and> js_gt sn (lastTankTempC dev s) (overTempThreshold cfg rule))
              = (t \<noteq> 0 \<and> c < t)"
    by (simp add: js_gt_def)
next
  have colon: "\<forall>d \<in> set (devices s). CHR '':'' \<notin> set (d_id d)"
    using colon' by (simp add: list_all_iff)
  let ?K = "dedupeKeyOf dev rule"
  let ?fk = "filter (\<lambda>e. ae_dedupeKey e = Some ?K)"
  let ?EP = "evaluatePair cfg sn others ids now"
  let ?F = "\<lambda>rule sw. fold (?EP rule) (devicesOfRule rule (sw_db sw)) sw"
  let ?rules = "filter r_enabled (alertRules s)"
  let ?sw0 = "\<lparr>sw_db = s, sw_next = 0, sw_created = 0\<rparr>"
  (* keys of other pairs *)
  have other_rule: "dedupeKeyOf d r \<noteq> ?K"
    if "r \<in> set (alertRules s)" "r \<noteq> rule" "d \<in> set (devices s)" for d r
  proof
    assume "dedupeKeyOf d r = ?K"
    with colon that(3) dev(1) have "r_id r = r_id rule" by (auto dest: dedupeKeyOf_inj)
    with drules that(1) rule(1) have "r = rule" by (auto simp: distinct_map dest: inj_onD)
    with that(2) show False by simp
  qed
  have other_dev: "dedupeKeyOf d r \<noteq> ?K" if "d \<in> set (devices s)" "d \<noteq> dev" for d r
  proof
    assume "dedupeKeyOf d r = ?K"
    with colon that(1) dev(1) have "d_id d = d_id dev" by (auto dest: dedupeKeyOf_inj)
    with ddevs that(1) dev(1) have "d = dev" by (auto simp: distinct_map dest: inj_onD)
    with that(2) show False by simp
  qed
  (* the position of the pair in the sweep *)
  have "rule \<in> set ?rules" using rule by simp
  then obtain rs1 rs2 where rs: "?rules = rs1 @ rule # rs2" by (auto dest: split_list)
  have "distinct ?rules" using drules by (auto simp: distinct_map)
  with rs have nr: "rule \<notin> set rs1" "rule \<notin> set rs2" by auto
  have sub_r: "set rs1 \<subseteq> set (alertRules s)" "set rs2 \<subseteq> set (alertRules s)"
  proof -
    have "set ?rules \<subseteq> set (alertRules s)" by auto
    then show "set rs1 \<subseteq> set (alertRules s)" "set rs2 \<subseteq> set (alertRules s)"
      unfolding rs by auto
  qed
  have "dev \<in> set (devicesOfRule rule s)" using dev by (simp add: devicesOfRule_def)
  then obtain ds1 ds2 where ds: "devicesOfRule rule s = ds1 @ dev # ds2" by (auto dest: split_list)
  have "distinct (devicesOfRule rule s)"
    using ddevs by (auto simp: distinct_map devicesOfRule_def)
  with ds have nd: "dev \<notin> set ds1" "dev \<notin> set ds2" by auto
  have sub_d: "set ds1 \<subseteq> set (devices s)" "set ds2 \<subseteq> set (devices s)"
  proof -
    have "set (devicesOfRule rule s) \<subseteq> set (devices s)" by (auto simp: devicesOfRule_def)
    then show "set ds1 \<subseteq> set (devices s)" "set ds2 \<subseteq> set (devices s)"
      unfolding ds by auto
  qed
  have dsub: "set (devicesOfRule r s) \<subseteq> set (devices s)" for r
    by (auto simp: devicesOfRule_def)
  have k_rs: "\<forall>r \<in> set rs. \<forall>d \<in> set (devicesOfRule r s). dedupeKeyOf d r \<noteq> ?K"
    if "rule \<notin> set rs" "set rs \<subseteq> set (alertRules s)" for rs
  proof (intro ballI)
    fix r d assume r: "r \<in> set rs" and d: "d \<in> set (devicesOfRule r s)"
    from r that have "r \<in> set (alertRules s)" "r \<noteq> rule" by auto
    moreover from d dsub have "d \<in> set (devices s)" by auto
    ultimately show "dedupeKeyOf d r \<noteq> ?K" by (rule other_rule)
  qed
  have k_ds: "\<forall>d \<in> set ds. dedupeKeyOf d rule \<noteq> ?K"
    if "dev \<notin> set ds" "set ds \<subseteq> set (devices s)" for ds
  proof
    fix d assume "d \<in> set ds"
    with that have "d \<in> set (devices s)" "d \<noteq> dev" by auto
    then show "dedupeKeyOf d rule \<noteq> ?K" by (rule other_dev)
  qed
  note k_rs1 = k_rs [OF nr(1) sub_r(1)] and k_rs2 = k_rs [OF nr(2) sub_r(2)]
    and k_ds1 = k_ds [OF nd(1) sub_d(1)] and k_ds2 = k_ds [OF nd(2) sub_d(2)]
  (* the sweep, stage by stage *)
  define sw1 where "sw1 = fold ?F rs1 ?sw0"
  define sw2 where "sw2 = fold (?EP rule) ds1 sw1"
  define sw3 where "sw3 = ?EP rule dev sw2"
  define sw4 where "sw4 = fold (?EP rule) ds2 sw3"
  define sw5 where "sw5 = fold ?F rs2 sw4"
  have i1: "sweepInv ids s sw1" unfolding sw1_def by (intro sweepInv_outer sweepInv_start)
  have i2: "sweepInv ids s sw2" unfolding sw2_def using i1 by (rule sweepInv_inner)
  have i3: "sweepInv ids s sw3" unfolding sw3_def using i2 by (rule sweepInv_pair)
  have i4: "sweepInv ids s sw4" unfolding sw4_def using i3 by (rule sweepInv_inner)
  have i5: "sweepInv ids s sw5" unfolding sw5_def using i4 by (rule sweepInv_outer)
  have e0: "?fk (alertEvents s) = []"
    using nokey by (auto simp: list_ex_iff filter_empty_conv)
  have e1: "?fk (alertEvents (sw_db sw1)) = []"
    unfolding sw1_def using keyed_outer [OF sweepInv_start k_rs1] e0 by simp
  have e2: "?fk (alertEvents (sw_db sw2)) = []"
    unfolding sw2_def using keyed_inner [OF k_ds1] e1 by simp
  have nk2: "\<not> list_ex (\<lambda>e. ae_dedupeKey e = Some ?K) (alertEvents (sw_db sw2))"
    using e2 by (auto simp: list_ex_iff filter_empty_conv)
  have fr2: "\<not> list_ex (\<lambda>e. ae_id e = ids (sw_next sw2)) (alertEvents (sw_db sw2))"
    using i2 inj fresh by (rule sweepInv_fresh)
  let ?ev = "\<lambda>k. \<lparr>ae_id = ids k, ae_tenantId = r_tenantId rule, ae_deviceId = d_id dev,
                   ae_ruleId = r_id rule, ae_severity = r_severity rule, ae_status = OPEN,
                   ae_openedAt = now,
                   ae_details = [(''tankTempC'', lastTankTempC dev s),
                                 (''thresholdC'', overTempThreshold cfg rule)],
                   ae_dedupeKey = Some ?K\<rparr>"
  let ?cond = "truthy (lastTankTempC dev s)
              \<and> js_gt sn (lastTankTempC dev s) (overTempThreshold cfg rule)"
  have t2: "lastTankTempC dev (sw_db sw2) = lastTankTempC dev s"
    using i2 by (rule lastTankTempC_inv)
  have "alertEvents (sw_db sw3)
      = alertEvents (sw_db sw2) @ (if ?cond then [?ev (sw_next sw2)] else [])"
    unfolding sw3_def
      evaluatePair_over_temp [where rule = rule and dev = dev and sw = sw2 and ids = ids
        and cfg = cfg and sn = sn and others = others and now = now, OF rule(3) nk2 fr2] t2 ..
  then have e3: "?fk (alertEvents (sw_db sw3)) = (if ?cond then [?ev (sw_next sw2)] else [])"
    using e2 by simp
  have e4: "?fk (alertEvents (sw_db sw4)) = (if ?cond then [?ev (sw_next sw2)] else [])"
    unfolding sw4_def using keyed_inner [OF k_ds2] e3 by simp
  have e5: "?fk (alertEvents (sw_db sw5)) = (if ?cond then [?ev (sw_next sw2)] else [])"
    unfolding sw5_def using keyed_outer [OF i4 k_rs2] e4 by simp
  have d1: "devicesOfRule rule (sw_db sw1) = ds1 @ dev # ds2"
    using devicesOfRule_inv [OF i1] ds by simp
  have run: "fold ?F ?rules ?sw0 = sw5"
    unfolding rs sw5_def sw4_def sw3_def sw2_def
    by (simp add: sw1_def [symmetric] d1)
  have res: "snd (evaluateAlerts cfg sn others ids now s) = sw_db sw5"
    unfolding evaluateAlerts_def Let_def run by simp
  from i5 obtain new where new: "alertEvents (sw_db sw5) = alertEvents s @ new"
    by (auto simp: sweepInv_def)
  with e5 e0 have "?fk new = (if ?cond then [?ev (sw_next sw2)] else [])" by simp
  with new res show "\<exists>new k. alertEvents (snd (evaluateAlerts cfg sn others ids now s)) = alertEvents s @ new
      \<and> filter (\<lambda>e. ae_dedupeKey e = Some (dedupeKeyOf dev rule)) new
        = (if truthy (lastTankTempC dev s)
              \<and> js_gt sn (lastTankTempC dev s) (overTempThreshold cfg rule)
           then [\<lparr>ae_id = ids k, ae_tenantId = r_tenantId rule, ae_deviceId = d_id dev,
                   ae_ruleId = r_id rule, ae_severity = r_severity rule, ae_status = OPEN,
                   ae_openedAt = now,
                   ae_details = [(''tankTempC'', lastTankTempC dev s),
                                 (''thresholdC'', overTempThreshold cfg rule)],
                   ae_dedupeKey = Some (dedupeKeyOf dev rule)\<rparr>]
           else [])"
    by auto
qed

theorem C8_over_temp_predicate_witness:
  "rule_at 40 \<in> set (alertRules (alerting_at 40)) \<and> r_enabled (rule_at 40)
   \<and> r_type (rule_at 40) = OVER_TEMP
   \<and> mk_device ''dev-a'' ''tenant-a'' None ACTIVE \<in> set (devices (alerting_at 40))
   \<and> d_tenantId (mk_device ''dev-a'' ''tenant-a'' None ACTIVE) = r_tenantId (rule_at 40)
   \<and> d_status (mk_device ''dev-a'' ''tenant-a'' None ACTIVE) = ACTIVE
   \<and> alertEvents (alerting_at 40) = []
   \<and> distinct (map r_id (alertRules (alerting_at 40)))
   \<and> distinct (map d_id (devices (alerting_at 40)))
   \<and> list_all (\<lambda>d. CHR '':'' \<notin> set (d_id d)) (devices (alerting_at 40))
   \<and> inj example_ids
   \<and> lastTankTempC (mk_device ''dev-a'' ''tenant-a'' None ACTIVE) (alerting_at 40) = Some (JNum 50)
   \<and> map (\<lambda>e. (ae_status e, ae_severity e, ae_details e))
        (filter (\<lambda>e. ae_dedupeKey e = Some ''dev-a:rule-1'')
           (alertEvents (snd (evaluateAlerts example_config (\<lambda>x. None) noOtherAlerts
              example_ids 9000 (alerting_at 40)))))
      = [(OPEN, CRITICAL, [(''tankTempC'', Some (JNum 50)), (''thresholdC'', Some (JNum 40))])]
   \<and> filter (\<lambda>e. ae_dedupeKey e = Some ''dev-a:rule-1'')
        (alertEvents (snd (evaluateAlerts example_config (\<lambda>x. None) noOtherAlerts
           example_ids 9000 (alerting_at 50)))) = []"
proof -
  let ?dev = "mk_device ''dev-a'' ''tenant-a'' None ACTIVE"
  have r: "rule_at c \<in> set (alertRules (alerting_at c))" "r_enabled (rule_at c)"
    "r_type (rule_at c) = OVER_TEMP" for c
    by (simp_all add: alerting_at_def rule_at_def example_rule_def)
  have d: "?dev \<in> set (devices (alerting_at c))" "d_tenantId ?dev = r_tenantId (rule_at c)" for c
    by (simp_all add: alerting_at_def example_alerting_def rule_at_def example_rule_def
          mk_device_def)
  have st: "d_status ?dev = ACTIVE" by (simp add: mk_device_def)
  then have st': "d_status ?dev = ACTIVE \<or> d_status ?dev = INSTALLED" by simp
  have e: "alertEvents (alerting_at c) = []" for c
    by (simp add: alerting_at_def example_alerting_def empty_db_def)
  have nokey: "\<not> list_ex (\<lambda>e. ae_dedupeKey e = Some (dedupeKeyOf ?dev (rule_at c)))
                 (alertEvents (alerting_at c))" for c
    by (simp add: e)
  have fresh: "\<forall>n. \<not> list_ex (\<lambda>e. ae_id e = example_ids n) (alertEvents (alerting_at c))" for c
    by (simp add: e)
  have dr: "distinct (map r_id (alertRules (alerting_at c)))" for c
    by (simp add: alerting_at_def)
  have dd: "distinct (map d_id (devices (alerting_at c)))" for c
    by (simp add: alerting_at_def example_alerting_def)
  have col: "list_all (\<lambda>d. CHR '':'' \<notin> set (d_id d)) (devices (alerting_at c))" for c
    by (simp add: alerting_at_def example_alerting_def mk_device_def)
  have inj: "inj example_ids"
    by (rule injI) (simp add: example_ids_def)
  have t: "lastTankTempC ?dev (alerting_at c) = Some (JNum 50)" for c
    by (simp add: lastTankTempC_def alerting_at_def example_alerting_def mk_device_def)
  have th: "overTempThreshold example_config (rule_at 40) = Some (JNum 40)"
    "overTempThreshold example_config (rule_at 50) = Some (JNum 50)"
    by (simp_all add: overTempThreshold_def js_or_def rule_at_def)
  have k: "dedupeKeyOf ?dev (rule_at c) = ''dev-a:rule-1''" for c
    by (simp add: dedupeKeyOf_def mk_device_def rule_at_def example_rule_def)
  have sev: "r_severity (rule_at c) = CRITICAL" for c
    by (simp add: rule_at_def example_rule_def)
  have cond: "(truthy (Some (JNum 50)) \<and> js_gt (\<lambda>x. None) (Some (JNum 50)) (Some (JNum 40))) = True"
    "(truthy (Some (JNum 50)) \<and> js_gt (\<lambda>x. None) (Some (JNum 50)) (Some (JNum 50))) = False"
    by (simp_all add: js_gt_def)
  note main40 = C8_over_temp_predicate [where rule = "rule_at 40" and dev = ?dev
      and s = "alerting_at 40" and ids = example_ids and cfg = example_config
      and sn = "\<lambda>x. None" and others = noOtherAlerts and now = 9000,
      OF r d st' nokey dr dd col inj fresh, THEN conjunct1,
      unfolded e t th k sev cond if_True append_Nil]
  note main50 = C8_over_temp_predicate [where rule = "rule_at 50" and dev = ?dev
      and s = "alerting_at 50" and ids = example_ids and cfg = example_config
      and sn = "\<lambda>x. None" and others = noOtherAlerts and now = 9000,
      OF r d st' nokey dr dd col inj fresh, THEN conjunct1,
      unfolded e t th k sev cond if_False append_Nil]
  from main40 obtain new kk where
    new: "alertEvents (snd (evaluateAlerts example_config (\<lambda>x. None) noOtherAlerts
                example_ids 9000 (alerting_at 40))) = new"
    and f: "filter (\<lambda>e. ae_dedupeKey e = Some ''dev-a:rule-1'') new
        = [\<lparr>ae_id = example_ids kk, ae_tenantId = r_tenantId (rule_at 40), ae_deviceId = d_id ?dev,
             ae_ruleId = r_id (rule_at 40), ae_severity = CRITICAL, ae_status = OPEN,
             ae_openedAt = 9000,
             ae_details = [(''tankTempC'', Some (JNum 50)), (''thresholdC'', Some (JNum 40))],
             ae_dedupeKey = Some ''dev-a:rule-1''\<rparr>]"
    by (elim exE conjE)
  have ex: "map (\<lambda>e. (ae_status e, ae_severity e, ae_details e))
        (filter (\<lambda>e. ae_dedupeKey e = Some ''dev-a:rule-1'')
           (alertEvents (snd (evaluateAlerts example_config (\<lambda>x. None) noOtherAlerts
              example_ids 9000 (alerting_at 40)))))
      = [(OPEN, CRITICAL, [(''tankTempC'', Some (JNum 50)), (''thresholdC'', Some (JNum 40))])]"
    unfolding new f by simp
  from main50 obtain new' where
    new': "alertEvents (snd (evaluateAlerts example_config (\<lambda>x. None) noOtherAlerts
                example_ids 9000 (alerting_at 50))) = new'"
    and f': "filter (\<lambda>e. ae_dedupeKey e = Some ''dev-a:rule-1'') new' = []"
    by (elim exE conjE)
  have none: "filter (\<lambda>e. ae_dedupeKey e = Some ''dev-a:rule-1'')
        (alertEvents (snd (evaluateAlerts example_config (\<lambda>x. None) noOtherAlerts
           example_ids 9000 (alerting_at 50)))) = []"
    unfolding new' f' ..
  show ?thesis
    using r [of 40] d [of 40] st e [of 40] dr [of 40] dd [of 40] col [of 40] inj t [of 40] ex none
    by (intro conjI)
qed

text \<open>
  C8, as the claim states it, at a concrete fleet: the rule's \<open>thresholdC\<close> is 0 and the
  twin's \<open>lastTankTempC\<close> is 50, which is defined and strictly greater than 0, and no
  AlertEvent exists.  The sweep creates no alert: a threshold of 0 is replaced by the
  configured default 85.
\<close>

theorem C8_zero_threshold_counterexample:
  "r_enabled example_rule \<and> r_type example_rule = OVER_TEMP
   \<and> r_params example_rule ''thresholdC'' = Some (JNum 0)
   \<and> devicesOfRule example_rule example_alerting = [mk_device ''dev-a'' ''tenant-a'' None ACTIVE]
   \<and> alertEvents example_alerting = []
   \<and> lastTankTempC (mk_device ''dev-a'' ''tenant-a'' None ACTIVE) example_alerting = Some (JNum 50)
   \<and> (0 :: real) < 50
   \<and> evaluateAlerts example_config (\<lambda>x. None) noOtherAlerts example_ids 9000 example_alerting
       = (0, example_alerting)"
proof -
  have r: "r_enabled example_rule" "r_type example_rule = OVER_TEMP"
    "r_params example_rule ''thresholdC'' = Some (JNum 0)"
    by (simp_all add: example_rule_def)
  have d: "devicesOfRule example_rule example_alerting = [mk_device ''dev-a'' ''tenant-a'' None ACTIVE]"
    by (simp add: devicesOfRule_def example_rule_def example_alerting_def mk_device_def)
  have e: "alertEvents example_alerting = []"
    by (simp add: example_alerting_def empty_db_def)
  have t: "lastTankTempC (mk_device ''dev-a'' ''tenant-a'' None ACTIVE) example_alerting = Some (JNum 50)"
    by (simp add: lastTankTempC_def example_alerting_def mk_device_def)
  have th: "overTempThreshold example_config example_rule = Some (JNum 85)"
    by (simp add: overTempThreshold_def js_or_def example_config_def r(3))
  have p: "evaluatePair example_config (\<lambda>x. None) noOtherAlerts example_ids 9000 example_rule
      (mk_device ''dev-a'' ''tenant-a'' None ACTIVE) example_sweep = example_sweep"
    by (simp add: evaluatePair_def Let_def overTempPredicate_def t th r(2) e example_sweep_def
        js_gt_def)
  have rules: "filter r_enabled (alertRules example_alerting) = [example_rule]"
    by (simp add: example_alerting_def r(1))
  have "evaluateAlerts example_config (\<lambda>x. None) noOtherAlerts example_ids 9000 example_alerting
       = (0, example_alerting)"
    unfolding evaluateAlerts_def Let_def rules
    using p d by (simp add: example_sweep_def)
  with r d e t show ?thesis by simp
qed



section \<open>Properties of the dashboard summary\<close>

lemma toDouble_eval:
  assumes "0 < x" and "2 powr of_int e \<le> x" and "x < 2 powr (of_int e + 1)"
  shows "toDouble x = of_int (roundHalfEven (x / 2 powr (of_int e - 52))) * 2 powr (of_int e - 52)"
proof -
  have "\<lfloor>log 2 x\<rfloor> = e"
    using assms by (subst floor_log_eq_powr_iff) auto
  with assms(1) show ?thesis by (simp add: toDouble_def Let_def)
qed

lemma toDouble_23_40: "toDouble (23 / 40) = 5179139571476070 / 2 ^ 53"
proof -
  have p: "(2::real) powr (of_int (- 1) - 52) = 1 / 2 ^ 53"
    by (simp add: powr_minus powr_numeral field_simps flip: powr_realpow)
  have "toDouble (23 / 40)
      = of_int (roundHalfEven ((23 / 40) / 2 powr (of_int (- 1) - 52))) * 2 powr (of_int (- 1) - 52)"
    by (rule toDouble_eval) (simp_all add: powr_minus)
  also have "\<dots> = 5179139571476070 / 2 ^ 53"
    unfolding p by (simp add: roundHalfEven_def Let_def)
  finally show ?thesis .
qed

lemma toDouble_23_40_100: "toDouble (toDouble (23 / 40) * 100) = 8092405580431359 / 2 ^ 47"
proof -
  have p: "(2::real) powr (of_int 5 - 52) = 1 / 2 ^ 47"
    by (simp add: powr_minus powr_numeral field_simps flip: powr_realpow)
  have "toDouble (5179139571476070 / 2 ^ 53 * 100)
      = of_int (roundHalfEven ((5179139571476070 / 2 ^ 53 * 100) / 2 powr (of_int 5 - 52)))
          * 2 powr (of_int 5 - 52)"
    by (rule toDouble_eval) (simp_all add: powr_numeral)
  also have "\<dots> = 8092405580431359 / 2 ^ 47"
    unfolding p by (simp add: roundHalfEven_def Let_def)
  finally show ?thesis unfolding toDouble_23_40 .
qed

text \<open>With 23 of 40 devices online the percentage is 57, where rounding 57.5 would give 58.\<close>

lemma percentage_23_of_40: "js_round (toDouble (toDouble (23 / 40) * 100)) = 57"
  unfolding toDouble_23_40_100 by (simp add: js_round_def)

text \<open>
  C1, at a concrete request: user B's only membership is in tenant B, and the request
  asks for the dashboard summary of tenant A.  The route runs \<open>authenticateUser\<close> and
  \<open>loadUserContext\<close> but not \<open>enforceTenancy\<close>, and the handler answers with tenant A's
  device, alert, rollup and site figures; the same request through the tenancy guard of
  the sibling routes is FORBIDDEN.
\<close>

theorem C1_dashboard_summary_leaks:
  "map (\<lambda>m. (m_tenantId m, m_role m))
     (filter (\<lambda>m. m_userId m = ''user-b'') (membershipTable example_tenants))
     = [(''tenant-b'', TENANT_ADMIN)]
   \<and> dashboardSummary foreign_request 5000 0 example_tenants
       = Inr \<lparr>totalDevices = 1, devicesByStatus = [(ACTIVE, 1)], onlineCount = 0,
               onlinePercentage = 0, activeAlerts = 1, alertsBySeverity = [(CRITICAL, 1)],
               todayEnergyKwh = 7 / 2, sitesCount = 1\<rparr>
   \<and> error_code (andThen (andThen (authenticateUser foreign_request)
          (loadUserContext (membershipTable example_tenants))) enforceTenancy)
       = Some ''FORBIDDEN''"
proof -
  have ctx: "andThen (authenticateUser foreign_request)
        (loadUserContext (membershipTable example_tenants))
      = Inr (foreign_request\<lparr>jwtPayload := Some \<lparr>userId = ''user-b'', email = ''b@example.org''\<rparr>,
               user := Some \<lparr>u_userId = ''user-b'', u_email = ''b@example.org'',
                              memberships = [(''tenant-b'', TENANT_ADMIN)]\<rparr>\<rparr>)"
    by (simp add: andThen_def authenticateUser_def loadUserContext_def foreign_request_def
        blank_request_def example_tenants_def)
  have a: "map (\<lambda>m. (m_tenantId m, m_role m))
     (filter (\<lambda>m. m_userId m = ''user-b'') (membershipTable example_tenants))
     = [(''tenant-b'', TENANT_ADMIN)]"
    by (simp add: example_tenants_def)
  have b: "dashboardSummary foreign_request 5000 0 example_tenants
       = Inr \<lparr>totalDevices = 1, devicesByStatus = [(ACTIVE, 1)], onlineCount = 0,
               onlinePercentage = 0, activeAlerts = 1, alertsBySeverity = [(CRITICAL, 1)],
               todayEnergyKwh = 7 / 2, sitesCount = 1\<rparr>"
    unfolding dashboardSummary_def ctx
    by (simp add: Let_def foreign_request_def blank_request_def example_tenants_def
        mk_device_def example_site_def groupCount_def sumNullable_def js_round_def
        toDouble_def)
  have c: "error_code (andThen (andThen (authenticateUser foreign_request)
          (loadUserContext (membershipTable example_tenants))) enforceTenancy)
       = Some ''FORBIDDEN''"
    unfolding ctx
    by (simp add: andThen_def enforceTenancy_def requestedTenantId_def str_or_def
        isPlatformAdmin_def ForbiddenError_def foreign_request_def blank_request_def)
  from a b c show ?thesis by simp
qed



end
